theory Spec2Isabelle
  imports Complex_Main "HOL-Library.AList"
begin

section \<open>JavaScript values\<close>

text \<open>
  A variable of TypeScript type \<open>T\<close> (compiled without strict null checks, as this
  repository is) holds \<open>null\<close>, \<open>undefined\<close> or a value of \<open>T\<close>.
\<close>

datatype 'a jsval = Null | Undefined | Val 'a

text \<open>
  Numbers are modelled in exact arithmetic: a finite number is a real, rounding and
  overflow of IEEE doubles are left out, and so is the sign of zero. \<open>jsnum\<close> is what
  sums, differences and products of finite numbers evaluate to (finite or \<open>NaN\<close>);
  \<open>jsquot\<close> is what a division evaluates to, which is also infinite on a zero divisor.
\<close>

datatype jsnum = Num real | NaN

datatype jsquot = Finite jsnum | PosInfinity | NegInfinity

text \<open>\<open>ToNumber\<close> of ECMAScript: \<open>null\<close> is \<open>+0\<close>, \<open>undefined\<close> is \<open>NaN\<close>.\<close>

fun ToNumber :: "real jsval \<Rightarrow> jsnum" where
  "ToNumber Null = Num 0"
| "ToNumber Undefined = NaN"
| "ToNumber (Val x) = Num x"

fun js_times :: "jsnum \<Rightarrow> jsnum \<Rightarrow> jsnum" where
  "js_times (Num a) (Num b) = Num (a * b)"
| "js_times _ _ = NaN"

fun js_minus :: "jsnum \<Rightarrow> jsnum \<Rightarrow> jsnum" where
  "js_minus (Num a) (Num b) = Num (a - b)"
| "js_minus _ _ = NaN"

fun js_divide :: "jsnum \<Rightarrow> jsnum \<Rightarrow> jsquot" where
  "js_divide (Num a) (Num b) =
     (if b \<noteq> 0 then Finite (Num (a / b))
      else if a = 0 then Finite NaN
      else if 0 < a then PosInfinity else NegInfinity)"
| "js_divide _ _ = Finite NaN"

text \<open>The product of a finite-or-NaN number with a quotient.\<close>

fun js_scale :: "jsnum \<Rightarrow> jsquot \<Rightarrow> jsquot" where
  "js_scale a (Finite b) = Finite (js_times a b)"
| "js_scale (Num a) PosInfinity =
     (if a = 0 then Finite NaN else if 0 < a then PosInfinity else NegInfinity)"
| "js_scale (Num a) NegInfinity =
     (if a = 0 then Finite NaN else if 0 < a then NegInfinity else PosInfinity)"
| "js_scale NaN _ = Finite NaN"

text \<open>Comparisons: every comparison with \<open>NaN\<close> is false.\<close>

fun js_gt :: "jsnum \<Rightarrow> jsnum \<Rightarrow> bool" where
  "js_gt (Num a) (Num b) = (a > b)"
| "js_gt _ _ = False"

fun js_le :: "jsnum \<Rightarrow> jsnum \<Rightarrow> bool" where
  "js_le (Num a) (Num b) = (a \<le> b)"
| "js_le _ _ = False"

fun js_lt :: "jsnum \<Rightarrow> jsnum \<Rightarrow> bool" where
  "js_lt (Num a) (Num b) = (a < b)"
| "js_lt _ _ = False"

text \<open>Truthiness of a boolean-typed variable: \<open>null\<close> and \<open>undefined\<close> are falsy.\<close>

fun truthy :: "bool jsval \<Rightarrow> bool" where
  "truthy (Val b) = b"
| "truthy _ = False"


section \<open>Styles\<close>

text \<open>
  Modelled from the spec: the color class of \<open>parts/index\<close> is not among the sources;
  the spec describes a color as a structured RGB triple with an embedded alpha.
\<close>

record Color =
  red :: real
  green :: real
  blue :: real
  alpha :: real

text \<open>The weight of a style is a boolean (bold or not) or a numeric weight.\<close>

datatype bold_value = BoldBoolean bool | BoldNumber real

text \<open>
  Modelled from the spec: the class \<open>Style\<close> of \<open>types/style\<close> is not among the
  sources. These are the fields that \<open>SpanStyles\<close> reads from it.
\<close>

record Style =
  italic :: bool
  bold :: bold_value
  underline :: bool
  strikeThrough :: bool
  outlineThickness :: real
  shadowDepth :: real
  fontName :: string
  fontSize :: real
  fontScaleX :: real
  fontScaleY :: real
  letterSpacing :: real
  rotationZ :: real
  primaryColor :: Color
  secondaryColor :: Color
  outlineColor :: Color
  shadowColor :: Color

record RendererSettings =
  enableSvg :: bool
  preciseOutlines :: bool


section \<open>The style state: class SpanStyles\<close>

text \<open>
  The private field \<open>_italic\<close> of the source is \<open>this_italic\<close> here, and so on. The
  constructor parameters \<open>_scaleX\<close>, \<open>_scaleY\<close> and \<open>_settings\<close> are fields too.
\<close>

record SpanStyles =
  this_id :: string
  this_defaultStyle :: Style
  this_italic :: "bool jsval"
  this_bold :: "bold_value jsval"
  this_underline :: "bool jsval"
  this_strikeThrough :: "bool jsval"
  this_outlineWidth :: "real jsval"
  this_outlineHeight :: "real jsval"
  this_shadowDepthX :: "real jsval"
  this_shadowDepthY :: "real jsval"
  this_fontName :: "string jsval"
  this_fontSize :: "real jsval"
  this_fontScaleX :: "real jsval"
  this_fontScaleY :: "real jsval"
  this_letterSpacing :: "real jsval"
  this_rotationX :: "real jsval"
  this_rotationY :: "real jsval"
  this_rotationZ :: "real jsval"
  this_skewX :: "real jsval"
  this_skewY :: "real jsval"
  this_primaryColor :: "Color jsval"
  this_secondaryColor :: "Color jsval"
  this_outlineColor :: "Color jsval"
  this_shadowColor :: "Color jsval"
  this_primaryAlpha :: "real jsval"
  this_secondaryAlpha :: "real jsval"
  this_outlineAlpha :: "real jsval"
  this_shadowAlpha :: "real jsval"
  this_blur :: "real jsval"
  this_gaussianBlur :: "real jsval"
  this_nextFilterId :: nat
  this_scaleX :: real
  this_scaleY :: real
  this_settings :: RendererSettings

text \<open>\<open>_valueOrDefault\<close>: only \<open>null\<close> selects the default (the test is \<open>!== null\<close>).\<close>

definition valueOrDefault :: "'a jsval \<Rightarrow> 'a jsval \<Rightarrow> 'a jsval" where
  "valueOrDefault newValue defaultValue = (if newValue \<noteq> Null then newValue else defaultValue)"

subsection \<open>The setters\<close>

definition set_italic :: "bool jsval \<Rightarrow> SpanStyles \<Rightarrow> SpanStyles" where
  "set_italic v s = s\<lparr>this_italic := valueOrDefault v (Val (italic (this_defaultStyle s)))\<rparr>"

definition set_bold :: "bold_value jsval \<Rightarrow> SpanStyles \<Rightarrow> SpanStyles" where
  "set_bold v s = s\<lparr>this_bold := valueOrDefault v (Val (bold (this_defaultStyle s)))\<rparr>"

definition set_underline :: "bool jsval \<Rightarrow> SpanStyles \<Rightarrow> SpanStyles" where
  "set_underline v s = s\<lparr>this_underline := valueOrDefault v (Val (underline (this_defaultStyle s)))\<rparr>"

definition set_strikeThrough :: "bool jsval \<Rightarrow> SpanStyles \<Rightarrow> SpanStyles" where
  "set_strikeThrough v s =
     s\<lparr>this_strikeThrough := valueOrDefault v (Val (strikeThrough (this_defaultStyle s)))\<rparr>"

definition set_outlineWidth :: "real jsval \<Rightarrow> SpanStyles \<Rightarrow> SpanStyles" where
  "set_outlineWidth v s =
     s\<lparr>this_outlineWidth := valueOrDefault v (Val (outlineThickness (this_defaultStyle s)))\<rparr>"

definition set_outlineHeight :: "real jsval \<Rightarrow> SpanStyles \<Rightarrow> SpanStyles" where
  "set_outlineHeight v s =
     s\<lparr>this_outlineHeight := valueOrDefault v (Val (outlineThickness (this_defaultStyle s)))\<rparr>"

definition set_shadowDepthX :: "real jsval \<Rightarrow> SpanStyles \<Rightarrow> SpanStyles" where
  "set_shadowDepthX v s =
     s\<lparr>this_shadowDepthX := valueOrDefault v (Val (shadowDepth (this_defaultStyle s)))\<rparr>"

definition set_shadowDepthY :: "real jsval \<Rightarrow> SpanStyles \<Rightarrow> SpanStyles" where
  "set_shadowDepthY v s =
     s\<lparr>this_shadowDepthY := valueOrDefault v (Val (shadowDepth (this_defaultStyle s)))\<rparr>"

definition set_blur :: "real jsval \<Rightarrow> SpanStyles \<Rightarrow> SpanStyles" where
  "set_blur v s = s\<lparr>this_blur := valueOrDefault v (Val 0)\<rparr>"

definition set_gaussianBlur :: "real jsval \<Rightarrow> SpanStyles \<Rightarrow> SpanStyles" where
  "set_gaussianBlur v s = s\<lparr>this_gaussianBlur := valueOrDefault v (Val 0)\<rparr>"

definition set_fontName :: "string jsval \<Rightarrow> SpanStyles \<Rightarrow> SpanStyles" where
  "set_fontName v s = s\<lparr>this_fontName := valueOrDefault v (Val (fontName (this_defaultStyle s)))\<rparr>"

definition set_fontSize :: "real jsval \<Rightarrow> SpanStyles \<Rightarrow> SpanStyles" where
  "set_fontSize v s = s\<lparr>this_fontSize := valueOrDefault v (Val (fontSize (this_defaultStyle s)))\<rparr>"

definition set_fontScaleX :: "real jsval \<Rightarrow> SpanStyles \<Rightarrow> SpanStyles" where
  "set_fontScaleX v s =
     s\<lparr>this_fontScaleX := valueOrDefault v (Val (fontScaleX (this_defaultStyle s)))\<rparr>"

definition set_fontScaleY :: "real jsval \<Rightarrow> SpanStyles \<Rightarrow> SpanStyles" where
  "set_fontScaleY v s =
     s\<lparr>this_fontScaleY := valueOrDefault v (Val (fontScaleY (this_defaultStyle s)))\<rparr>"

definition set_letterSpacing :: "real jsval \<Rightarrow> SpanStyles \<Rightarrow> SpanStyles" where
  "set_letterSpacing v s =
     s\<lparr>this_letterSpacing := valueOrDefault v (Val (letterSpacing (this_defaultStyle s)))\<rparr>"

definition set_rotationX :: "real jsval \<Rightarrow> SpanStyles \<Rightarrow> SpanStyles" where
  "set_rotationX v s = s\<lparr>this_rotationX := v\<rparr>"

definition set_rotationY :: "real jsval \<Rightarrow> SpanStyles \<Rightarrow> SpanStyles" where
  "set_rotationY v s = s\<lparr>this_rotationY := v\<rparr>"

definition set_rotationZ :: "real jsval \<Rightarrow> SpanStyles \<Rightarrow> SpanStyles" where
  "set_rotationZ v s =
     s\<lparr>this_rotationZ := valueOrDefault v (Val (rotationZ (this_defaultStyle s)))\<rparr>"

definition set_skewX :: "real jsval \<Rightarrow> SpanStyles \<Rightarrow> SpanStyles" where
  "set_skewX v s = s\<lparr>this_skewX := v\<rparr>"

definition set_skewY :: "real jsval \<Rightarrow> SpanStyles \<Rightarrow> SpanStyles" where
  "set_skewY v s = s\<lparr>this_skewY := v\<rparr>"

definition set_primaryColor :: "Color jsval \<Rightarrow> SpanStyles \<Rightarrow> SpanStyles" where
  "set_primaryColor v s =
     s\<lparr>this_primaryColor := valueOrDefault v (Val (primaryColor (this_defaultStyle s)))\<rparr>"

definition set_secondaryColor :: "Color jsval \<Rightarrow> SpanStyles \<Rightarrow> SpanStyles" where
  "set_secondaryColor v s =
     s\<lparr>this_secondaryColor := valueOrDefault v (Val (secondaryColor (this_defaultStyle s)))\<rparr>"

definition set_outlineColor :: "Color jsval \<Rightarrow> SpanStyles \<Rightarrow> SpanStyles" where
  "set_outlineColor v s =
     s\<lparr>this_outlineColor := valueOrDefault v (Val (outlineColor (this_defaultStyle s)))\<rparr>"

definition set_shadowColor :: "Color jsval \<Rightarrow> SpanStyles \<Rightarrow> SpanStyles" where
  "set_shadowColor v s =
     s\<lparr>this_shadowColor := valueOrDefault v (Val (shadowColor (this_defaultStyle s)))\<rparr>"

definition set_primaryAlpha :: "real jsval \<Rightarrow> SpanStyles \<Rightarrow> SpanStyles" where
  "set_primaryAlpha v s = s\<lparr>this_primaryAlpha := v\<rparr>"

definition set_secondaryAlpha :: "real jsval \<Rightarrow> SpanStyles \<Rightarrow> SpanStyles" where
  "set_secondaryAlpha v s = s\<lparr>this_secondaryAlpha := v\<rparr>"

definition set_outlineAlpha :: "real jsval \<Rightarrow> SpanStyles \<Rightarrow> SpanStyles" where
  "set_outlineAlpha v s = s\<lparr>this_outlineAlpha := v\<rparr>"

definition set_shadowAlpha :: "real jsval \<Rightarrow> SpanStyles \<Rightarrow> SpanStyles" where
  "set_shadowAlpha v s = s\<lparr>this_shadowAlpha := v\<rparr>"

subsection \<open>reset\<close>

text \<open>A block of statements, run in order on the state.\<close>

definition statements :: "('s \<Rightarrow> 's) list \<Rightarrow> 's \<Rightarrow> 's" where
  "statements fs s = fold (\<lambda>f. f) fs s"

definition reset :: "Style jsval \<Rightarrow> SpanStyles \<Rightarrow> SpanStyles" where
  "reset arg s =
     (let newStyle = (case arg of Val st \<Rightarrow> st | _ \<Rightarrow> this_defaultStyle s) in
      statements
       [set_italic (Val (italic newStyle)),
        set_bold (Val (bold newStyle)),
        set_underline (Val (underline newStyle)),
        set_strikeThrough (Val (strikeThrough newStyle)),
        set_outlineWidth (Val (outlineThickness newStyle)),
        set_outlineHeight (Val (outlineThickness newStyle)),
        set_shadowDepthX (Val (shadowDepth newStyle)),
        set_shadowDepthY (Val (shadowDepth newStyle)),
        set_fontName (Val (fontName newStyle)),
        set_fontSize (Val (fontSize newStyle)),
        set_fontScaleX (Val (fontScaleX newStyle)),
        set_fontScaleY (Val (fontScaleY newStyle)),
        set_letterSpacing (Val (letterSpacing newStyle)),
        (\<lambda>s. s\<lparr>this_rotationX := Null\<rparr>),
        (\<lambda>s. s\<lparr>this_rotationY := Null\<rparr>),
        (\<lambda>s. s\<lparr>this_rotationZ := Val (rotationZ newStyle)\<rparr>),
        (\<lambda>s. s\<lparr>this_skewX := Null\<rparr>),
        (\<lambda>s. s\<lparr>this_skewY := Null\<rparr>),
        set_primaryColor (Val (primaryColor newStyle)),
        set_secondaryColor (Val (secondaryColor newStyle)),
        set_outlineColor (Val (outlineColor newStyle)),
        set_shadowColor (Val (shadowColor newStyle)),
        set_primaryAlpha Null,
        set_secondaryAlpha Null,
        set_outlineAlpha Null,
        set_shadowAlpha Null,
        set_blur Null,
        set_gaussianBlur Null] s)"

subsection \<open>The constructor\<close>

text \<open>
  Decimal text of a natural number: \<open>Number::toString\<close> on the counters and ids of the
  program, which are natural numbers (exact below \<open>2^53\<close>).
\<close>

fun nat_ToString :: "nat \<Rightarrow> string" where
  "nat_ToString n =
     (if n < 10 then [char_of (48 + n)]
      else nat_ToString (n div 10) @ [char_of (48 + n mod 10)])"

declare nat_ToString.simps [simp del]

text \<open>
  The constructor stores the id and the dialogue's style and calls \<open>reset(null)\<close>; the
  attribute fields, not yet assigned, read \<open>undefined\<close> until then.
\<close>

definition SpanStyles_new ::
  "nat \<Rightarrow> nat \<Rightarrow> Style \<Rightarrow> real \<Rightarrow> real \<Rightarrow> RendererSettings \<Rightarrow> SpanStyles" where
  "SpanStyles_new renderer_id dialogue_id dialogue_style scaleX scaleY settings =
     reset Null
      \<lparr>this_id = nat_ToString renderer_id @ ''-'' @ nat_ToString dialogue_id,
       this_defaultStyle = dialogue_style,
       this_italic = Undefined, this_bold = Undefined, this_underline = Undefined,
       this_strikeThrough = Undefined, this_outlineWidth = Undefined,
       this_outlineHeight = Undefined, this_shadowDepthX = Undefined,
       this_shadowDepthY = Undefined, this_fontName = Undefined, this_fontSize = Undefined,
       this_fontScaleX = Undefined, this_fontScaleY = Undefined,
       this_letterSpacing = Undefined, this_rotationX = Undefined,
       this_rotationY = Undefined, this_rotationZ = Undefined, this_skewX = Undefined,
       this_skewY = Undefined, this_primaryColor = Undefined,
       this_secondaryColor = Undefined, this_outlineColor = Undefined,
       this_shadowColor = Undefined, this_primaryAlpha = Undefined,
       this_secondaryAlpha = Undefined, this_outlineAlpha = Undefined,
       this_shadowAlpha = Undefined, this_blur = Undefined, this_gaussianBlur = Undefined,
       this_nextFilterId = 0, this_scaleX = scaleX, this_scaleY = scaleY,
       this_settings = settings\<rparr>"

subsection \<open>Sequences of calls on a style state\<close>

text \<open>
  What the tag-processing layer does to a style state between two renderings: it assigns to
  the setters and calls \<open>reset\<close>.
\<close>

datatype setter_call =
    Assign_italic "bool jsval"
  | Assign_bold "bold_value jsval"
  | Assign_underline "bool jsval"
  | Assign_strikeThrough "bool jsval"
  | Assign_outlineWidth "real jsval"
  | Assign_outlineHeight "real jsval"
  | Assign_shadowDepthX "real jsval"
  | Assign_shadowDepthY "real jsval"
  | Assign_blur "real jsval"
  | Assign_gaussianBlur "real jsval"
  | Assign_fontName "string jsval"
  | Assign_fontSize "real jsval"
  | Assign_fontScaleX "real jsval"
  | Assign_fontScaleY "real jsval"
  | Assign_letterSpacing "real jsval"
  | Assign_rotationX "real jsval"
  | Assign_rotationY "real jsval"
  | Assign_rotationZ "real jsval"
  | Assign_skewX "real jsval"
  | Assign_skewY "real jsval"
  | Assign_primaryColor "Color jsval"
  | Assign_secondaryColor "Color jsval"
  | Assign_outlineColor "Color jsval"
  | Assign_shadowColor "Color jsval"
  | Assign_primaryAlpha "real jsval"
  | Assign_secondaryAlpha "real jsval"
  | Assign_outlineAlpha "real jsval"
  | Assign_shadowAlpha "real jsval"
  | Call_reset "Style jsval"

fun perform :: "setter_call \<Rightarrow> SpanStyles \<Rightarrow> SpanStyles" where
  "perform (Assign_italic v) = set_italic v"
| "perform (Assign_bold v) = set_bold v"
| "perform (Assign_underline v) = set_underline v"
| "perform (Assign_strikeThrough v) = set_strikeThrough v"
| "perform (Assign_outlineWidth v) = set_outlineWidth v"
| "perform (Assign_outlineHeight v) = set_outlineHeight v"
| "perform (Assign_shadowDepthX v) = set_shadowDepthX v"
| "perform (Assign_shadowDepthY v) = set_shadowDepthY v"
| "perform (Assign_blur v) = set_blur v"
| "perform (Assign_gaussianBlur v) = set_gaussianBlur v"
| "perform (Assign_fontName v) = set_fontName v"
| "perform (Assign_fontSize v) = set_fontSize v"
| "perform (Assign_fontScaleX v) = set_fontScaleX v"
| "perform (Assign_fontScaleY v) = set_fontScaleY v"
| "perform (Assign_letterSpacing v) = set_letterSpacing v"
| "perform (Assign_rotationX v) = set_rotationX v"
| "perform (Assign_rotationY v) = set_rotationY v"
| "perform (Assign_rotationZ v) = set_rotationZ v"
| "perform (Assign_skewX v) = set_skewX v"
| "perform (Assign_skewY v) = set_skewY v"
| "perform (Assign_primaryColor v) = set_primaryColor v"
| "perform (Assign_secondaryColor v) = set_secondaryColor v"
| "perform (Assign_outlineColor v) = set_outlineColor v"
| "perform (Assign_shadowColor v) = set_shadowColor v"
| "perform (Assign_primaryAlpha v) = set_primaryAlpha v"
| "perform (Assign_secondaryAlpha v) = set_secondaryAlpha v"
| "perform (Assign_outlineAlpha v) = set_outlineAlpha v"
| "perform (Assign_shadowAlpha v) = set_shadowAlpha v"
| "perform (Call_reset v) = reset v"



section \<open>Text\<close>

text \<open>
  The text of a finite number in a template literal, \<open>Number::toString\<close>, is the shortest
  decimal that reads back as the same double: it is a matter of the floating-point format,
  so the model takes it as a parameter. The text of \<open>color.withAlpha(alpha).toString()\<close>
  is a parameter too: the color class is not among the sources.
\<close>

record js_environment =
  Number_toString :: "real \<Rightarrow> string"
  Color_text :: "Color \<Rightarrow> real jsval \<Rightarrow> string"

definition TAB :: string where
  "TAB = [CHR 0x09]"

definition NL :: string where
  "NL = [CHR 0x0A]"

text \<open>\<open>ToString\<close> of ECMAScript on the values of a number-typed variable.\<close>

fun jsnum_ToString :: "js_environment \<Rightarrow> jsnum \<Rightarrow> string" where
  "jsnum_ToString env (Num x) = Number_toString env x"
| "jsnum_ToString env NaN = ''NaN''"

fun ToString :: "js_environment \<Rightarrow> real jsval \<Rightarrow> string" where
  "ToString env Null = ''null''"
| "ToString env Undefined = ''undefined''"
| "ToString env (Val x) = Number_toString env x"

text \<open>
  \<open>Number.prototype.toFixed(3)\<close>, as ECMAScript defines it: the text of a number that is not
  finite; else the sign, and for a magnitude \<open>x\<close> of \<open>10^21\<close> or more the text of \<open>x\<close>, and
  below that the digits of the integer \<open>n\<close> nearest to \<open>1000 x\<close> (the larger on a tie) with
  a point before the last three.
\<close>

definition digit :: "nat \<Rightarrow> string" where
  "digit d = [char_of (48 + d mod 10)]"

fun toFixed3 :: "js_environment \<Rightarrow> jsquot \<Rightarrow> string" where
  "toFixed3 env (Finite NaN) = ''NaN''"
| "toFixed3 env PosInfinity = ''Infinity''"
| "toFixed3 env NegInfinity = ''-Infinity''"
| "toFixed3 env (Finite (Num r)) =
     (let s = (if r < 0 then ''-'' else ''''); x = \<bar>r\<bar> in
      if 10 ^ 21 \<le> x then s @ Number_toString env x
      else
        let n = nat \<lfloor>x * 1000 + 1 / 2\<rfloor> in
        s @ nat_ToString (n div 1000) @ ''.'' @ digit (n div 100) @ digit (n div 10) @ digit n)"

declare toFixed3.simps [simp del]


section \<open>The animation timeline: class AnimationCollection\<close>

text \<open>
  Modelled from the spec: the class \<open>Keyframe\<close> is not among the sources. A keyframe is a
  time and a mapping from property names to property values; the mapping is kept as the list
  of its entries, in the order in which \<open>forEach\<close> visits them.
\<close>

record Keyframe =
  time :: real
  properties :: "(string \<times> string) list"

text \<open>
  The private field \<open>_cssText\<close> of the source is \<open>ac_cssText\<close> here, and so on. The map
  \<open>_animationDelays\<close> is the list of its entries in insertion order, and \<open>Map.set\<close> is
  \<open>AList.update\<close>, which replaces the value of a key already there and appends a new key.
\<close>

record AnimationCollection =
  ac_id :: string
  ac_rate :: real
  ac_cssText :: string
  ac_animationStyle :: string
  ac_animationDelays :: "(string \<times> real jsval) list"
  ac_numAnimations :: nat

text \<open>
  The constructor, with the static counter \<open>_nextId\<close> passed in and returned incremented.
\<close>

definition AnimationCollection_new ::
  "nat \<Rightarrow> real \<Rightarrow> nat \<Rightarrow> AnimationCollection \<times> nat" where
  "AnimationCollection_new renderer_id renderer_clock_rate nextId =
     (\<lparr>ac_id = nat_ToString renderer_id @ ''-'' @ nat_ToString nextId,
       ac_rate = renderer_clock_rate,
       ac_cssText = '''',
       ac_animationStyle = '''',
       ac_animationDelays = [],
       ac_numAnimations = 0\<rparr>,
      nextId + 1)"

text \<open>The first loop of \<open>add\<close>: \<open>start\<close> and \<open>end\<close>, both \<open>null\<close> before it.\<close>

definition note_time :: "Keyframe \<Rightarrow> real jsval \<times> real jsval \<Rightarrow> real jsval \<times> real jsval" where
  "note_time keyframe se =
     (case se of (start, end) \<Rightarrow>
        ((if start = Null then Val (time keyframe) else start), Val (time keyframe)))"

definition start_end :: "Keyframe list \<Rightarrow> real jsval \<times> real jsval" where
  "start_end keyframes = fold note_time keyframes (Null, Null)"

text \<open>The percentage of a keyframe, before \<open>toFixed(3)\<close>.\<close>

definition percentage :: "real jsval \<Rightarrow> real jsval \<Rightarrow> Keyframe \<Rightarrow> jsquot" where
  "percentage start end keyframe =
     js_scale (Num 100)
       (if js_minus (ToNumber end) (ToNumber start) = Num 0 then Finite (Num 1)
        else js_divide (js_minus (Num (time keyframe)) (ToNumber start))
                       (js_minus (ToNumber end) (ToNumber start)))"

text \<open>
  The second loop of \<open>add\<close>: each keyframe appends one block to \<open>ruleCssText\<close>, and
  inside it each property appends one line.
\<close>

definition add_property :: "string \<times> string \<Rightarrow> string \<Rightarrow> string" where
  "add_property entry ruleCssText =
     (case entry of (name, v) \<Rightarrow> ruleCssText @ TAB @ TAB @ name @ '': '' @ v @ '';'' @ NL)"

definition add_block ::
  "js_environment \<Rightarrow> real jsval \<Rightarrow> real jsval \<Rightarrow> Keyframe \<Rightarrow> string \<Rightarrow> string" where
  "add_block env start end keyframe ruleCssText =
     fold add_property (properties keyframe)
       (ruleCssText @ TAB @ toFixed3 env (percentage start end keyframe) @ ''% {'' @ NL)
     @ TAB @ ''}'' @ NL"

definition rule_blocks ::
  "js_environment \<Rightarrow> real jsval \<Rightarrow> real jsval \<Rightarrow> Keyframe list \<Rightarrow> string" where
  "rule_blocks env start end keyframes = fold (add_block env start end) keyframes ''''"

definition animationName :: "AnimationCollection \<Rightarrow> string" where
  "animationName a = ''animation-'' @ ac_id a @ ''-'' @ nat_ToString (ac_numAnimations a)"

definition add ::
  "js_environment \<Rightarrow> string \<Rightarrow> Keyframe list \<Rightarrow> AnimationCollection \<Rightarrow> AnimationCollection" where
  "add env timingFunction keyframes a =
     (let (start, end) = start_end keyframes;
          ruleCssText = rule_blocks env start end keyframes;
          name = animationName a;
          a = a\<lparr>ac_numAnimations := ac_numAnimations a + 1\<rparr>;
          a = a\<lparr>ac_cssText := ac_cssText a
                 @ ''@-webkit-keyframes '' @ name @ '' {'' @ NL
                 @ ruleCssText @ NL
                 @ ''}'' @ NL
                 @ NL
                 @ ''@keyframes '' @ name @ '' {'' @ NL
                 @ ruleCssText @ NL
                 @ ''}'' @ NL
                 @ NL\<rparr>;
          a = (if ac_animationStyle a \<noteq> ''''
               then a\<lparr>ac_animationStyle := ac_animationStyle a @ '',''\<rparr> else a);
          a = a\<lparr>ac_animationStyle := ac_animationStyle a
                 @ name @ '' ''
                 @ toFixed3 env (js_divide (js_minus (ToNumber end) (ToNumber start))
                                           (Num (ac_rate a)))
                 @ ''s '' @ timingFunction\<rparr>
      in a\<lparr>ac_animationDelays := AList.update name start (ac_animationDelays a)\<rparr>)"


section \<open>The font-size cache\<close>

text \<open>
  The measurement surface: the \<open>offsetHeight\<close> that the measuring element reports once its
  font family and font size are set to the two arguments.
\<close>

type_synonym fontSizeElement = "string jsval \<Rightarrow> jsnum \<Rightarrow> real"

text \<open>
  The static \<open>_fontSizeCache\<close>, a map of maps (the class \<open>Map\<close> of \<open>utility/map\<close> is not
  among the sources; it is a finite map here), and, beside it, the list of the readings of
  \<open>offsetHeight\<close> made so far. The list is not in the source: it records the calls of the
  measurement surface, which the source does not count.
\<close>

record font_sizes =
  fontSizeCache :: "string jsval \<Rightarrow> (jsnum \<Rightarrow> jsquot option) option"
  measured :: "(string jsval \<times> jsnum) list"

definition no_font_sizes :: font_sizes where
  "no_font_sizes = \<lparr>fontSizeCache = Map.empty, measured = []\<rparr>"

definition getFontSize ::
  "fontSizeElement \<Rightarrow> string jsval \<Rightarrow> jsnum \<Rightarrow> font_sizes \<Rightarrow> jsquot \<times> font_sizes" where
  "getFontSize fontSizeElement fontFamily lineHeight fs =
     (let existingFontSizeMap =
            (case fontSizeCache fs fontFamily of Some m \<Rightarrow> m | None \<Rightarrow> Map.empty);
          fs = (case fontSizeCache fs fontFamily of
                  Some m \<Rightarrow> fs
                | None \<Rightarrow> fs\<lparr>fontSizeCache := (fontSizeCache fs)(fontFamily \<mapsto> Map.empty)\<rparr>)
      in case existingFontSizeMap lineHeight of
           Some existingFontSize \<Rightarrow> (existingFontSize, fs)
         | None \<Rightarrow>
             (let existingFontSize =
                    js_divide (js_times lineHeight lineHeight)
                              (Num (fontSizeElement fontFamily lineHeight))
              in (existingFontSize,
                  fs\<lparr>fontSizeCache :=
                        (fontSizeCache fs)
                          (fontFamily \<mapsto> existingFontSizeMap(lineHeight \<mapsto> existingFontSize)),
                     measured := measured fs @ [(fontFamily, lineHeight)]\<rparr>)))"


section \<open>Rendering the style state: setStylesOnSpan\<close>

subsection \<open>The elements\<close>

text \<open>
  The properties of an element's \<open>style\<close> that the method writes, each the text last
  assigned to it (the empty text on a new element). The input span is its \<open>style\<close> and
  whether its first child is a text node.
\<close>

record CSSStyleDeclaration =
  style_font :: string
  style_textDecoration :: string
  style_webkitTransform :: string
  style_webkitTransformOrigin :: string
  style_transform :: string
  style_transformOrigin :: string
  style_display :: string
  style_letterSpacing :: string
  style_color :: string
  style_textShadow :: string
  style_webkitFilter :: string
  style_filter :: string
  style_webkitAnimation :: string
  style_animation :: string

definition new_style :: CSSStyleDeclaration where
  "new_style =
     \<lparr>style_font = '''', style_textDecoration = '''', style_webkitTransform = '''',
      style_webkitTransformOrigin = '''', style_transform = '''', style_transformOrigin = '''',
      style_display = '''', style_letterSpacing = '''', style_color = '''',
      style_textShadow = '''', style_webkitFilter = '''', style_filter = '''',
      style_webkitAnimation = '''', style_animation = ''''\<rparr>"

record HTMLSpanElement =
  firstChildIsText :: bool
  style :: CSSStyleDeclaration

text \<open>
  What a call that returns leaves behind: the style of the span, the style of the wrapper
  span that is returned, the filter markup appended to the \<open><defs>\<close> element, and the text
  appended to the animation style element.
\<close>

record rendering =
  span_style :: CSSStyleDeclaration
  filterWrapperSpan_style :: CSSStyleDeclaration
  svgDefs_appended :: "string list"
  animationStyleElement_appended :: string

datatype TypeError = TypeError

subsection \<open>More arithmetic and text\<close>

definition DQ :: string where
  "DQ = [CHR 0x22]"

fun js_plus :: "jsnum \<Rightarrow> jsnum \<Rightarrow> jsnum" where
  "js_plus (Num a) (Num b) = Num (a + b)"
| "js_plus _ _ = NaN"

text \<open>\<open>Math.sqrt\<close>: \<open>NaN\<close> below zero.\<close>

fun js_sqrt :: "jsnum \<Rightarrow> jsnum" where
  "js_sqrt (Num a) = (if a < 0 then NaN else Num (sqrt a))"
| "js_sqrt NaN = NaN"

fun string_ToString :: "string jsval \<Rightarrow> string" where
  "string_ToString Null = ''null''"
| "string_ToString Undefined = ''undefined''"
| "string_ToString (Val x) = x"

fun bold_ToString :: "js_environment \<Rightarrow> bold_value jsval \<Rightarrow> string" where
  "bold_ToString env Null = ''null''"
| "bold_ToString env Undefined = ''undefined''"
| "bold_ToString env (Val (BoldNumber n)) = Number_toString env n"
| "bold_ToString env (Val (BoldBoolean b)) = (if b then ''true'' else ''false'')"

text \<open>\<open>String.prototype.trim\<close> on the texts it is applied to, whose only white space is the space.\<close>

definition js_trim :: "string \<Rightarrow> string" where
  "js_trim t = rev (dropWhile (\<lambda>c. c = CHR '' '') (rev (dropWhile (\<lambda>c. c = CHR '' '') t)))"

subsection \<open>Font, decoration, transform\<close>

definition fontStyleOrWeight :: "js_environment \<Rightarrow> SpanStyles \<Rightarrow> string" where
  "fontStyleOrWeight env s =
     statements
      [(\<lambda>fontStyleOrWeight.
          if truthy (this_italic s) then fontStyleOrWeight @ ''italic '' else fontStyleOrWeight),
       (\<lambda>fontStyleOrWeight.
          if this_bold s = Val (BoldBoolean True) then fontStyleOrWeight @ ''bold ''
          else if this_bold s \<noteq> Val (BoldBoolean False)
          then fontStyleOrWeight @ bold_ToString env (this_bold s) @ '' ''
          else fontStyleOrWeight)] ''''"

definition textDecoration :: "SpanStyles \<Rightarrow> string" where
  "textDecoration s =
     statements
      [(\<lambda>textDecoration. if truthy (this_underline s) then ''underline'' else textDecoration),
       (\<lambda>textDecoration.
          if truthy (this_strikeThrough s) then textDecoration @ '' line-through''
          else textDecoration)] ''''"

text \<open>
  The transform: the statements of lines 194 to 221, each appending to the variable
  \<open>transform\<close> or leaving it.
\<close>

definition transform :: "js_environment \<Rightarrow> SpanStyles \<Rightarrow> bool \<Rightarrow> string" where
  "transform env s isTextOnlySpan =
     statements
      [(\<lambda>transform.
          if isTextOnlySpan then
            (if this_fontScaleY s \<noteq> this_fontScaleX s
             then transform @ ''scaleY(''
                    @ toFixed3 env (js_divide (ToNumber (this_fontScaleY s))
                                              (ToNumber (this_fontScaleX s)))
                    @ '') ''
             else transform)
          else
            statements
             [(\<lambda>transform.
                 if this_fontScaleX s \<noteq> Val 1
                 then transform @ ''scaleX('' @ ToString env (this_fontScaleX s) @ '') ''
                 else transform),
              (\<lambda>transform.
                 if this_fontScaleY s \<noteq> Val 1
                 then transform @ ''scaleY('' @ ToString env (this_fontScaleY s) @ '') ''
                 else transform)] transform),
       (\<lambda>transform.
          if this_rotationY s \<noteq> Null
          then transform @ ''rotateY('' @ ToString env (this_rotationY s) @ ''deg) ''
          else transform),
       (\<lambda>transform.
          if this_rotationX s \<noteq> Null
          then transform @ ''rotateX('' @ ToString env (this_rotationX s) @ ''deg) ''
          else transform),
       (\<lambda>transform.
          if this_rotationZ s \<noteq> Val 0
          then transform @ ''rotateZ(''
                 @ jsnum_ToString env (js_times (Num (- 1)) (ToNumber (this_rotationZ s)))
                 @ ''deg) ''
          else transform),
       (\<lambda>transform.
          if this_skewX s \<noteq> Null \<or> this_skewY s \<noteq> Null then
            (let skewX = valueOrDefault (this_skewX s) (Val 0);
                 skewY = valueOrDefault (this_skewY s) (Val 0)
             in transform @ ''matrix(1, '' @ ToString env skewY @ '', '' @ ToString env skewX
                  @ '', 1, 0, 0) '')
          else transform)] ''''"

text \<open>Lines 222 to 228: a transform that is not empty is stored, with the display mode.\<close>

definition set_transform :: "string \<Rightarrow> CSSStyleDeclaration \<Rightarrow> CSSStyleDeclaration" where
  "set_transform t st =
     (if t \<noteq> '''' then
        st\<lparr>style_webkitTransform := t,
           style_webkitTransformOrigin := ''50% 50%'',
           style_transform := t,
           style_transformOrigin := ''50% 50%'',
           style_display := ''inline-block''\<rparr>
      else st)"

subsection \<open>The outline\<close>

text \<open>The local variables \<open>outlineWidth\<close> and \<open>outlineHeight\<close>: the scaled dimensions.\<close>

definition scaled_outlineWidth :: "SpanStyles \<Rightarrow> jsnum" where
  "scaled_outlineWidth s = js_times (Num (this_scaleX s)) (ToNumber (this_outlineWidth s))"

definition scaled_outlineHeight :: "SpanStyles \<Rightarrow> jsnum" where
  "scaled_outlineHeight s = js_times (Num (this_scaleY s)) (ToNumber (this_outlineHeight s))"

text \<open>
  The step of the walk: the Gaussian blur when it is positive and outlines need not be
  precise, else 1. A positive \<open>_gaussianBlur\<close> is a number.
\<close>

definition increment :: "bool \<Rightarrow> real jsval \<Rightarrow> real" where
  "increment precise gaussianBlur =
     (if \<not> precise \<and> js_gt (ToNumber gaussianBlur) (Num 0)
      then (case gaussianBlur of Val g \<Rightarrow> g | _ \<Rightarrow> 1) else 1)"

lemma increment_pos: "0 < increment p gb"
  by (cases gb) (simp_all add: increment_def)


text \<open>
  The loop \<open>for (var x = 0; x <= bound; x += increment)\<close>: the values that \<open>x\<close> takes from
  \<open>x\<close> on, the last of them being its value when the loop is left.
\<close>

function walk :: "bool \<Rightarrow> real jsval \<Rightarrow> jsnum \<Rightarrow> real \<Rightarrow> real list" where
  "walk precise gaussianBlur bound x =
     (if js_le (Num x) bound
      then x # walk precise gaussianBlur bound (x + increment precise gaussianBlur)
      else [x])"
  by pat_completeness auto
termination
proof (relation "measure (\<lambda>(p, gb, bound, x).
          case bound of Num b \<Rightarrow> nat (\<lfloor>(b - x) / increment p gb\<rfloor> + 1) | NaN \<Rightarrow> 0)")
  show "wf (measure (\<lambda>(p, gb, bound, x).
          case bound of Num b \<Rightarrow> nat (\<lfloor>(b - x) / increment p gb\<rfloor> + 1) | NaN \<Rightarrow> 0))"
    by simp
next
  fix precise gb bound x
  assume le: "js_le (Num x) bound"
  then obtain b where b: "bound = Num b" "x \<le> b"
    by (cases bound) simp_all
  let ?i = "increment precise gb"
  have pos: "0 < ?i" by (rule increment_pos)
  have "(b - (x + ?i)) / ?i = (b - x) / ?i - 1"
    using pos by (simp add: field_simps)
  moreover have "0 \<le> (b - x) / ?i"
    using pos b by simp
  then have "0 \<le> \<lfloor>(b - x) / ?i\<rfloor>" by simp
  ultimately show "((precise, gb, bound, x + ?i), (precise, gb, bound, x))
        \<in> measure (\<lambda>(p, gb, bound, x).
          case bound of Num b \<Rightarrow> nat (\<lfloor>(b - x) / increment p gb\<rfloor> + 1) | NaN \<Rightarrow> 0)"
    using b by simp
qed


text \<open>
  The loop \<open>for (var x = 0; x <= bound; x++)\<close>: the values of \<open>x\<close> from \<open>n\<close> on for
  which the body runs.
\<close>

function count_le :: "jsnum \<Rightarrow> nat \<Rightarrow> nat list" where
  "count_le bound n = (if js_le (Num (real n)) bound then n # count_le bound (n + 1) else [])"
  by pat_completeness auto
termination
  by (relation "measure (\<lambda>(bound, n). case bound of Num b \<Rightarrow> nat (\<lfloor>b\<rfloor> + 1) - n | NaN \<Rightarrow> 0)")
     (auto split: jsnum.splits simp: le_floor_iff nat_less_iff  intro!: diff_less_mono2, linarith+)


text \<open>The loop \<open>for (var i = 0; i < bound; i++)\<close>, likewise.\<close>

function count_lt :: "jsnum \<Rightarrow> nat \<Rightarrow> nat list" where
  "count_lt bound n = (if js_lt (Num (real n)) bound then n # count_lt bound (n + 1) else [])"
  by pat_completeness auto
termination
  by (relation "measure (\<lambda>(bound, n). case bound of Num b \<Rightarrow> nat (\<lceil>b\<rceil>) - n | NaN \<Rightarrow> 0)")
     (auto split: jsnum.splits simp: less_ceiling_iff nat_less_iff intro!: diff_less_mono2, linarith+)

declare walk.simps [simp del] count_le.simps [simp del] count_lt.simps [simp del]

subsection \<open>The outline with SVG filters\<close>

text \<open>
  The walk of lines 257 to 283: the arguments of the calls of \<open>addOutline\<close>, in order.
\<close>

definition svg_outlines ::
  "bool \<Rightarrow> real jsval \<Rightarrow> jsnum \<Rightarrow> jsnum \<Rightarrow> (jsquot \<times> jsquot) list" where
  "svg_outlines precise gaussianBlur outlineWidth outlineHeight =
     (if js_le outlineWidth outlineHeight then
        (if js_gt outlineWidth (Num 0) then
           (let xs = walk precise gaussianBlur outlineWidth 0 in
            map (\<lambda>x. (Finite (Num x),
                      js_scale (js_sqrt (js_minus (js_times outlineWidth outlineWidth)
                                                  (Num (x * x))))
                               (js_divide outlineHeight outlineWidth)))
                (butlast xs)
            @ (if Num (last xs) \<noteq> js_plus outlineWidth (Num (increment precise gaussianBlur))
               then [(Finite outlineWidth, Finite (Num 0))] else []))
         else [(Finite (Num 0), Finite outlineHeight)])
      else
        (if js_gt outlineHeight (Num 0) then
           (let ys = walk precise gaussianBlur outlineHeight 0 in
            map (\<lambda>y. (js_scale (js_sqrt (js_minus (js_times outlineHeight outlineHeight)
                                                  (Num (y * y))))
                               (js_divide outlineWidth outlineHeight),
                      Finite (Num y)))
                (butlast ys)
            @ (if Num (last ys) \<noteq> js_plus outlineHeight (Num (increment precise gaussianBlur))
               then [(Finite (Num 0), Finite outlineHeight)] else []))
         else [(Finite outlineWidth, Finite (Num 0))]))"

text \<open>
  The callback \<open>addOutline\<close> of lines 284 to 294, on the variables \<open>outlineFilter\<close>,
  \<open>mergeOutlinesFilter\<close> and \<open>outlineNumber\<close>.
\<close>

definition svg_addOutline ::
  "js_environment \<Rightarrow> jsquot \<times> jsquot \<Rightarrow> string \<times> string \<times> nat \<Rightarrow> string \<times> string \<times> nat" where
  "svg_addOutline env xy vars =
     (case (xy, vars) of ((x, y), (outlineFilter, mergeOutlinesFilter, outlineNumber)) \<Rightarrow>
        (outlineFilter
           @ TAB @ ''<feMorphology in='' @ DQ @ ''SourceAlpha'' @ DQ @ '' operator='' @ DQ
           @ ''dilate'' @ DQ @ '' radius='' @ DQ @ toFixed3 env x @ '' '' @ toFixed3 env y @ DQ
           @ '' result='' @ DQ @ ''outline'' @ nat_ToString outlineNumber @ DQ @ '' />'' @ NL,
         mergeOutlinesFilter
           @ TAB @ TAB @ ''<feMergeNode in='' @ DQ @ ''outline'' @ nat_ToString outlineNumber
           @ DQ @ '' />'' @ NL,
         outlineNumber + 1))"

text \<open>Lines 246 to 303: the variable \<open>outlineFilter\<close> after them.\<close>

definition svg_outlineFilter :: "js_environment \<Rightarrow> SpanStyles \<Rightarrow> string \<Rightarrow> string" where
  "svg_outlineFilter env s outlineColor_text =
     (if js_gt (scaled_outlineWidth s) (Num 0) \<or> js_gt (scaled_outlineHeight s) (Num 0) then
        (case fold (svg_addOutline env)
                (svg_outlines (preciseOutlines (this_settings s)) (this_gaussianBlur s)
                   (scaled_outlineWidth s) (scaled_outlineHeight s))
                ('''', '''', 0) of
           (outlineFilter, mergeOutlinesFilter, outlineNumber) \<Rightarrow>
             outlineFilter
               @ TAB @ ''<feMerge result='' @ DQ @ ''outline'' @ DQ @ ''>'' @ NL
               @ mergeOutlinesFilter @ NL
               @ ''</feMerge>'' @ NL
               @ ''<feFlood flood-color='' @ DQ @ outlineColor_text @ DQ @ '' />'' @ NL
               @ ''<feComposite operator='' @ DQ @ ''in'' @ DQ @ '' in2='' @ DQ @ ''outline''
               @ DQ @ '' />'' @ NL)
      else '''')"

text \<open>Lines 305 to 314: the variable \<open>blurFilter\<close> after them.\<close>

definition svg_blurFilter :: "js_environment \<Rightarrow> SpanStyles \<Rightarrow> string" where
  "svg_blurFilter env s =
     statements
      [(\<lambda>blurFilter.
          if js_gt (ToNumber (this_gaussianBlur s)) (Num 0)
          then blurFilter @ TAB @ ''<feGaussianBlur stdDeviation='' @ DQ
                 @ ToString env (this_gaussianBlur s) @ DQ @ '' />'' @ NL
          else blurFilter),
       fold (\<lambda>i blurFilter.
               blurFilter @ TAB @ ''<feConvolveMatrix kernelMatrix='' @ DQ
                 @ ''1 2 1 2 4 2 1 2 1'' @ DQ @ '' edgeMode='' @ DQ @ ''none'' @ DQ @ '' />'' @ NL)
            (count_lt (ToNumber (this_blur s)) 0)] ''''"

subsection \<open>The outline without SVG filters\<close>

text \<open>Line 322: the bound of the inner loop. The division is by a number other than 0.\<close>

definition maxY :: "jsnum \<Rightarrow> jsnum \<Rightarrow> nat \<Rightarrow> jsnum" where
  "maxY outlineWidth outlineHeight x =
     (if outlineWidth = Num 0 then outlineHeight
      else js_times outlineHeight
             (js_sqrt (case outlineWidth of
                         Num w \<Rightarrow> Num (1 - (real x * real x) / (w * w))
                       | NaN \<Rightarrow> NaN)))"

text \<open>Lines 324 to 336: the calls of \<open>addOutline\<close> in one round of the inner loop.\<close>

definition four_ways :: "nat \<Rightarrow> nat \<Rightarrow> (int \<times> int) list" where
  "four_ways x y =
     [(int x, int y)]
     @ (if x \<noteq> 0 then [(- int x, int y)] else [])
     @ (if y \<noteq> 0 then [(int x, - int y)] else [])
     @ (if x \<noteq> 0 \<and> y \<noteq> 0 then [(- int x, - int y)] else [])"

text \<open>The two loops of lines 321 to 338: the arguments of the calls of \<open>addOutline\<close>, in order.\<close>

definition fallback_outlines :: "jsnum \<Rightarrow> jsnum \<Rightarrow> (int \<times> int) list" where
  "fallback_outlines outlineWidth outlineHeight =
     concat (map (\<lambda>x. concat (map (\<lambda>y. four_ways x y)
                                   (count_le (maxY outlineWidth outlineHeight x) 0)))
                 (count_le outlineWidth 0))"

text \<open>The callback \<open>addOutline\<close> of lines 339 to 341, on the variable \<open>outlineCssString\<close>.\<close>

definition fallback_addOutline ::
  "js_environment \<Rightarrow> string \<Rightarrow> real \<Rightarrow> int \<times> int \<Rightarrow> string \<Rightarrow> string" where
  "fallback_addOutline env outlineColor_text gaussianBlur xy outlineCssString =
     (case xy of (x, y) \<Rightarrow>
        outlineCssString @ '', '' @ outlineColor_text @ '' '' @ Number_toString env (real_of_int x)
          @ ''px '' @ Number_toString env (real_of_int y) @ ''px ''
          @ toFixed3 env (Finite (Num gaussianBlur)) @ ''px'')"

text \<open>
  Lines 240 to 345: the variables \<open>outlineFilter\<close> and \<open>blurFilter\<close> and the style of the
  span after them. Without SVG filters, \<open>addOutline\<close> calls \<open>toFixed\<close> on \<open>_gaussianBlur\<close>,
  which throws when that is \<open>null\<close> or \<open>undefined\<close>.
\<close>

definition outline_and_blur ::
  "js_environment \<Rightarrow> SpanStyles \<Rightarrow> string \<Rightarrow> CSSStyleDeclaration
     \<Rightarrow> TypeError + string \<times> string \<times> CSSStyleDeclaration" where
  "outline_and_blur env s outlineColor_text st =
     (if enableSvg (this_settings s) then
        Inr (svg_outlineFilter env s outlineColor_text, svg_blurFilter env s, st)
      else if js_gt (scaled_outlineWidth s) (Num 0) \<or> js_gt (scaled_outlineHeight s) (Num 0) then
        (let outlines = fallback_outlines (scaled_outlineWidth s) (scaled_outlineHeight s) in
         case this_gaussianBlur s of
           Val g \<Rightarrow>
             Inr ('''', '''',
                  st\<lparr>style_textShadow :=
                       drop 2 (fold (fallback_addOutline env outlineColor_text g) outlines '''')\<rparr>)
         | _ \<Rightarrow>
             if outlines = [] then Inr ('''', '''', st\<lparr>style_textShadow := drop 2 ''''\<rparr>)
             else Inl TypeError)
      else Inr ('''', '''', st))"

subsection \<open>Filter, shadow, wrapper\<close>

definition filterString :: "string \<Rightarrow> string \<Rightarrow> string \<Rightarrow> string" where
  "filterString filterId outlineFilter blurFilter =
     ''<filter xmlns='' @ DQ @ ''http://www.w3.org/2000/svg'' @ DQ @ '' id='' @ DQ @ filterId @ DQ
       @ '' x='' @ DQ @ ''-50%'' @ DQ @ '' width='' @ DQ @ ''200%'' @ DQ
       @ '' y='' @ DQ @ ''-50%'' @ DQ @ '' height='' @ DQ @ ''200%'' @ DQ @ ''>'' @ NL
       @ outlineFilter @ NL
       @ blurFilter @ NL
       @ ''<feMerge>'' @ NL
       @ TAB @ ''<feMergeNode />'' @ NL
       @ TAB @ ''<feMergeNode in='' @ DQ @ ''SourceGraphic'' @ DQ @ '' />'' @ NL
       @ ''</feMerge>'' @ NL
       @ ''</filter>'' @ NL"

text \<open>Lines 370 to 379: the drop shadow. \<open>withAlpha\<close> throws on a color that is not there.\<close>

definition drop_shadow ::
  "js_environment \<Rightarrow> SpanStyles \<Rightarrow> CSSStyleDeclaration \<Rightarrow> TypeError + CSSStyleDeclaration" where
  "drop_shadow env s st =
     (if this_shadowDepthX s \<noteq> Val 0 \<or> this_shadowDepthY s \<noteq> Val 0 then
        (case this_shadowColor s of
           Val c \<Rightarrow>
             (let shadowCssString =
                    Color_text env c (this_shadowAlpha s) @ '' ''
                    @ toFixed3 env (js_divide (js_times (ToNumber (this_shadowDepthX s))
                                                        (Num (this_scaleX s)))
                                              (ToNumber (this_fontScaleX s)))
                    @ ''px ''
                    @ toFixed3 env (js_divide (js_times (ToNumber (this_shadowDepthY s))
                                                        (Num (this_scaleY s)))
                                              (ToNumber (this_fontScaleY s)))
                    @ ''px 0px''
              in if style_textShadow st = ''''
                 then Inr (st\<lparr>style_textShadow := shadowCssString\<rparr>)
                 else Inr (st\<lparr>style_textShadow := style_textShadow st @ '', '' @ shadowCssString\<rparr>))
         | _ \<Rightarrow> Inl TypeError)
      else Inr st)"

text \<open>Lines 381 to 384: the display mode of the wrapper.\<close>

definition wrapper_display :: "SpanStyles \<Rightarrow> CSSStyleDeclaration \<Rightarrow> CSSStyleDeclaration" where
  "wrapper_display s wrapper =
     (if this_rotationX s \<noteq> Val 0 \<or> this_rotationY s \<noteq> Val 0
      then wrapper\<lparr>style_display := ''inline-block''\<rparr> else wrapper)"

text \<open>
  Lines 347 to 368: the filter definition appended to the \<open><defs>\<close> element, and the
  new wrapper span with its reference to the filter, when there is an outline or a blur.
\<close>

definition filter_definitions :: "string \<Rightarrow> string \<Rightarrow> string \<Rightarrow> string list" where
  "filter_definitions filterId outlineFilter blurFilter =
     (if outlineFilter \<noteq> '''' \<or> blurFilter \<noteq> ''''
      then [filterString filterId outlineFilter blurFilter] else [])"

definition wrapper_filter :: "string \<Rightarrow> string \<Rightarrow> string \<Rightarrow> CSSStyleDeclaration" where
  "wrapper_filter filterId outlineFilter blurFilter =
     (if outlineFilter \<noteq> '''' \<or> blurFilter \<noteq> ''''
      then new_style\<lparr>style_webkitFilter := ''url('' @ DQ @ ''#'' @ filterId @ DQ @ '')'',
                      style_filter := ''url('' @ DQ @ ''#'' @ filterId @ DQ @ '')''\<rparr>
      else new_style)"

subsection \<open>The method\<close>

text \<open>
  The size looked up in the cache: the font size times the vertical font scale for a span
  of text only, the font size else.
\<close>

definition lookup_size :: "SpanStyles \<Rightarrow> bool \<Rightarrow> jsnum" where
  "lookup_size s isTextOnlySpan =
     (if isTextOnlySpan
      then js_times (ToNumber (this_fontSize s)) (ToNumber (this_fontScaleY s))
      else ToNumber (this_fontSize s))"

text \<open>
  Lines 165 to 230: font, text decoration, transform and letter spacing, written to the style
  of the span. \<open>cached\<close> is what \<open>_getFontSize\<close> returned.
\<close>

definition font_to_letterSpacing ::
  "js_environment \<Rightarrow> jsquot \<Rightarrow> SpanStyles \<Rightarrow> bool \<Rightarrow> CSSStyleDeclaration
     \<Rightarrow> CSSStyleDeclaration" where
  "font_to_letterSpacing env cached s isTextOnlySpan st =
     (let fontSize_text = toFixed3 env (js_scale (Num (this_scaleY s)) cached);
          lineHeight_text =
             toFixed3 env (Finite (js_times (Num (this_scaleY s)) (ToNumber (this_fontSize s))));
          st = st\<lparr>style_font := fontStyleOrWeight env s @ fontSize_text @ ''px/''
                   @ lineHeight_text @ ''px '' @ DQ @ string_ToString (this_fontName s) @ DQ\<rparr>;
          st = st\<lparr>style_textDecoration := js_trim (textDecoration s)\<rparr>;
          st = set_transform (transform env s isTextOnlySpan) st
      in st\<lparr>style_letterSpacing :=
              toFixed3 env (Finite (js_times (Num (this_scaleX s))
                                             (ToNumber (this_letterSpacing s)))) @ ''px''\<rparr>)"

text \<open>
  \<open>setStylesOnSpan\<close>. The result is what the call leaves behind when it returns, or the
  \<open>TypeError\<close> it throws, with the style state (whose filter counter a call with SVG filters
  increments) and the font-size cache after the call.
\<close>

definition setStylesOnSpan ::
  "js_environment \<Rightarrow> fontSizeElement \<Rightarrow> HTMLSpanElement \<Rightarrow> AnimationCollection
     \<Rightarrow> SpanStyles \<Rightarrow> font_sizes \<Rightarrow> (TypeError + rendering) \<times> SpanStyles \<times> font_sizes" where
  "setStylesOnSpan env fontSizeElement span_el animationCollection s fonts =
     (let isTextOnlySpan = firstChildIsText span_el;
          (cached, fonts) =
             getFontSize fontSizeElement (this_fontName s) (lookup_size s isTextOnlySpan) fonts;
          st = font_to_letterSpacing env cached s isTextOnlySpan (style span_el)
      in case this_primaryColor s of
           Val c \<Rightarrow>
             (let st = st\<lparr>style_color := Color_text env c (this_primaryAlpha s)\<rparr> in
              case this_outlineColor s of
                Val c \<Rightarrow>
                  (let outlineColor_text = Color_text env c (this_outlineAlpha s);
                       filterId = ''svg-filter-'' @ this_id s @ ''-''
                                    @ nat_ToString (this_nextFilterId s);
                       s' = (if enableSvg (this_settings s)
                             then s\<lparr>this_nextFilterId := this_nextFilterId s + 1\<rparr> else s)
                   in case outline_and_blur env s outlineColor_text st of
                        Inr (outlineFilter, blurFilter, st) \<Rightarrow>
                          (case drop_shadow env s st of
                             Inr st \<Rightarrow>
                               (Inr \<lparr>span_style =
                                       st\<lparr>style_webkitAnimation :=
                                            ac_animationStyle animationCollection,
                                          style_animation :=
                                            ac_animationStyle animationCollection\<rparr>,
                                     filterWrapperSpan_style =
                                       wrapper_display s
                                         (wrapper_filter filterId outlineFilter blurFilter),
                                     svgDefs_appended =
                                       filter_definitions filterId outlineFilter blurFilter,
                                     animationStyleElement_appended =
                                       ac_cssText animationCollection\<rparr>,
                                s', fonts)
                           | Inl e \<Rightarrow> (Inl e, s', fonts))
                      | Inl e \<Rightarrow> (Inl e, s', fonts))
              | _ \<Rightarrow> (Inl TypeError, s, fonts))
         | _ \<Rightarrow> (Inl TypeError, s, fonts))"

text \<open>\<open>makeNewLine\<close>: the line height of the line break.\<close>

definition makeNewLine :: "js_environment \<Rightarrow> SpanStyles \<Rightarrow> string" where
  "makeNewLine env s =
     toFixed3 env (Finite (js_times (Num (this_scaleY s)) (ToNumber (this_fontSize s)))) @ ''px''"

section \<open>The invariant of the font-size cache\<close>

text \<open>
  Used in the proofs: no reading is listed twice, and the listed readings are those of the
  pairs of family and size that have a value in the cache.
\<close>

definition cache_ok :: "font_sizes \<Rightarrow> bool" where
  "cache_ok fs \<longleftrightarrow>
     distinct (measured fs) \<and>
     (\<forall>fam lh. (fam, lh) \<in> set (measured fs) \<longleftrightarrow>
        (\<exists>m v. fontSizeCache fs fam = Some m \<and> m lh = Some v))"

section \<open>An environment and a style for the examples\<close>

text \<open>
  The examples below print integers only. \<open>integer_text\<close> is the decimal text of an
  integer, which is what \<open>Number::toString\<close> gives for the integers below \<open>10^21\<close>.
\<close>

definition integer_text :: "real \<Rightarrow> string" where
  "integer_text x = (if x < 0 then ''-'' else '''') @ nat_ToString (nat \<lfloor>\<bar>x\<bar>\<rfloor>)"

text \<open>
  Modelled from the spec: the color class is not among the sources. The text of a color is
  its RGB triple with the alpha override, or with the color's own alpha when there is no
  override.
\<close>

definition sample_env :: js_environment where
  "sample_env =
     \<lparr>Number_toString = integer_text,
      Color_text = (\<lambda>c a.
        ''rgba('' @ integer_text (red c) @ '', '' @ integer_text (green c) @ '', ''
          @ integer_text (blue c) @ '', ''
          @ integer_text (case a of Val v \<Rightarrow> v | _ \<Rightarrow> alpha c) @ '')'')\<rparr>"

definition white :: Color where
  "white = \<lparr>red = 255, green = 255, blue = 255, alpha = 1\<rparr>"

definition black :: Color where
  "black = \<lparr>red = 0, green = 0, blue = 0, alpha = 1\<rparr>"

definition sample_style :: Style where
  "sample_style =
     \<lparr>italic = False, bold = BoldBoolean False, underline = False, strikeThrough = False,
      outlineThickness = 0, shadowDepth = 0, fontName = ''Arial'', fontSize = 20,
      fontScaleX = 1, fontScaleY = 1, letterSpacing = 0, rotationZ = 0,
      primaryColor = white, secondaryColor = white, outlineColor = black,
      shadowColor = black\<rparr>"

text \<open>A new style state, a span, a measuring element and a timeline for the examples.\<close>

definition sample_state :: "bool \<Rightarrow> SpanStyles" where
  "sample_state svg =
     SpanStyles_new 1 1 sample_style 1 1 \<lparr>enableSvg = svg, preciseOutlines = False\<rparr>"

definition sample_span :: "bool \<Rightarrow> HTMLSpanElement" where
  "sample_span isTextOnlySpan = \<lparr>firstChildIsText = isTextOnlySpan, style = new_style\<rparr>"

definition sample_element :: fontSizeElement where
  "sample_element = (\<lambda>fontFamily lineHeight. 23)"

definition sample_animations :: AnimationCollection where
  "sample_animations = fst (AnimationCollection_new 1 1 0)"

text \<open>A style state with a vertical font scale, the three rotations and a skew.\<close>

definition rotated_state :: SpanStyles where
  "rotated_state =
     statements
       [set_fontScaleY (Val 2), set_rotationY (Val 10), set_rotationX (Val 20),
        set_rotationZ (Val 30), set_skewX (Val 1)]
       (sample_state True)"

text \<open>A new style state with its outline width and height set.\<close>

definition outlined_state :: "bool \<Rightarrow> real \<Rightarrow> real \<Rightarrow> SpanStyles" where
  "outlined_state svg w h = set_outlineHeight (Val h) (set_outlineWidth (Val w) (sample_state svg))"

section \<open>Properties of the style state\<close>

lemmas setter_defs =
  set_italic_def set_bold_def set_underline_def set_strikeThrough_def set_outlineWidth_def
  set_outlineHeight_def set_shadowDepthX_def set_shadowDepthY_def set_blur_def
  set_gaussianBlur_def set_fontName_def set_fontSize_def set_fontScaleX_def set_fontScaleY_def
  set_letterSpacing_def set_rotationX_def set_rotationY_def set_rotationZ_def set_skewX_def
  set_skewY_def set_primaryColor_def set_secondaryColor_def set_outlineColor_def
  set_shadowColor_def set_primaryAlpha_def set_secondaryAlpha_def set_outlineAlpha_def
  set_shadowAlpha_def


lemma defaultStyle_reset: "this_defaultStyle (reset a s) = this_defaultStyle s"
  by (simp add: reset_def statements_def setter_defs Let_def)

lemma defaultStyle_perform: "this_defaultStyle (perform c s) = this_defaultStyle s"
  by (cases c) (simp_all add: setter_defs defaultStyle_reset)

lemma defaultStyle_fold: "this_defaultStyle (fold perform cs s) = this_defaultStyle s"
  by (induction cs arbitrary: s) (simp_all add: defaultStyle_perform)


lemma reset_unfold:
  "reset arg s =
     (let newStyle = (case arg of Val st \<Rightarrow> st | _ \<Rightarrow> this_defaultStyle s) in
      s\<lparr>this_italic := Val (italic newStyle),
        this_bold := Val (bold newStyle),
        this_underline := Val (underline newStyle),
        this_strikeThrough := Val (strikeThrough newStyle),
        this_outlineWidth := Val (outlineThickness newStyle),
        this_outlineHeight := Val (outlineThickness newStyle),
        this_shadowDepthX := Val (shadowDepth newStyle),
        this_shadowDepthY := Val (shadowDepth newStyle),
        this_fontName := Val (fontName newStyle),
        this_fontSize := Val (fontSize newStyle),
        this_fontScaleX := Val (fontScaleX newStyle),
        this_fontScaleY := Val (fontScaleY newStyle),
        this_letterSpacing := Val (letterSpacing newStyle),
        this_rotationX := Null,
        this_rotationY := Null,
        this_rotationZ := Val (rotationZ newStyle),
        this_skewX := Null,
        this_skewY := Null,
        this_primaryColor := Val (primaryColor newStyle),
        this_secondaryColor := Val (secondaryColor newStyle),
        this_outlineColor := Val (outlineColor newStyle),
        this_shadowColor := Val (shadowColor newStyle),
        this_primaryAlpha := Null,
        this_secondaryAlpha := Null,
        this_outlineAlpha := Null,
        this_shadowAlpha := Null,
        this_blur := Val 0,
        this_gaussianBlur := Val 0\<rparr>)"
  by (simp add: reset_def statements_def setter_defs valueOrDefault_def Let_def)


text \<open>
  Claim C1. For each attribute with a base-style default (italic, bold, underline,
  strike-through, outline width and height, shadow depth X and Y, font name, font size, font
  scale X and Y, letter spacing, rotation Z and the four colors), assigning \<open>null\<close> stores
  the corresponding value of the base style (the outline thickness for both outline
  dimensions, the shadow depth for both shadow offsets) and assigning a concrete value stores
  that value. Assigning \<open>null\<close> to rotation X/Y or skew X/Y stores \<open>null\<close> (absent), and
  assigning \<open>null\<close> to either blur strength stores 0.
\<close>

theorem setters_null_or_concrete:
  fixes s :: SpanStyles and b :: bool and w :: bold_value and x :: real
    and n :: string and c :: Color
  shows
  "this_italic (set_italic Null s) = Val (italic (this_defaultStyle s)) \<and>
   this_italic (set_italic (Val b) s) = Val b \<and>
   this_bold (set_bold Null s) = Val (bold (this_defaultStyle s)) \<and>
   this_bold (set_bold (Val w) s) = Val w \<and>
   this_underline (set_underline Null s) = Val (underline (this_defaultStyle s)) \<and>
   this_underline (set_underline (Val b) s) = Val b \<and>
   this_strikeThrough (set_strikeThrough Null s) = Val (strikeThrough (this_defaultStyle s)) \<and>
   this_strikeThrough (set_strikeThrough (Val b) s) = Val b \<and>
   this_outlineWidth (set_outlineWidth Null s) = Val (outlineThickness (this_defaultStyle s)) \<and>
   this_outlineWidth (set_outlineWidth (Val x) s) = Val x \<and>
   this_outlineHeight (set_outlineHeight Null s) = Val (outlineThickness (this_defaultStyle s)) \<and>
   this_outlineHeight (set_outlineHeight (Val x) s) = Val x \<and>
   this_shadowDepthX (set_shadowDepthX Null s) = Val (shadowDepth (this_defaultStyle s)) \<and>
   this_shadowDepthX (set_shadowDepthX (Val x) s) = Val x \<and>
   this_shadowDepthY (set_shadowDepthY Null s) = Val (shadowDepth (this_defaultStyle s)) \<and>
   this_shadowDepthY (set_shadowDepthY (Val x) s) = Val x \<and>
   this_fontName (set_fontName Null s) = Val (fontName (this_defaultStyle s)) \<and>
   this_fontName (set_fontName (Val n) s) = Val n \<and>
   this_fontSize (set_fontSize Null s) = Val (fontSize (this_defaultStyle s)) \<and>
   this_fontSize (set_fontSize (Val x) s) = Val x \<and>
   this_fontScaleX (set_fontScaleX Null s) = Val (fontScaleX (this_defaultStyle s)) \<and>
   this_fontScaleX (set_fontScaleX (Val x) s) = Val x \<and>
   this_fontScaleY (set_fontScaleY Null s) = Val (fontScaleY (this_defaultStyle s)) \<and>
   this_fontScaleY (set_fontScaleY (Val x) s) = Val x \<and>
   this_letterSpacing (set_letterSpacing Null s) = Val (letterSpacing (this_defaultStyle s)) \<and>
   this_letterSpacing (set_letterSpacing (Val x) s) = Val x \<and>
   this_rotationZ (set_rotationZ Null s) = Val (rotationZ (this_defaultStyle s)) \<and>
   this_rotationZ (set_rotationZ (Val x) s) = Val x \<and>
   this_primaryColor (set_primaryColor Null s) = Val (primaryColor (this_defaultStyle s)) \<and>
   this_primaryColor (set_primaryColor (Val c) s) = Val c \<and>
   this_secondaryColor (set_secondaryColor Null s) = Val (secondaryColor (this_defaultStyle s)) \<and>
   this_secondaryColor (set_secondaryColor (Val c) s) = Val c \<and>
   this_outlineColor (set_outlineColor Null s) = Val (outlineColor (this_defaultStyle s)) \<and>
   this_outlineColor (set_outlineColor (Val c) s) = Val c \<and>
   this_shadowColor (set_shadowColor Null s) = Val (shadowColor (this_defaultStyle s)) \<and>
   this_shadowColor (set_shadowColor (Val c) s) = Val c \<and>
   this_rotationX (set_rotationX Null s) = Null \<and>
   this_rotationY (set_rotationY Null s) = Null \<and>
   this_skewX (set_skewX Null s) = Null \<and>
   this_skewY (set_skewY Null s) = Null \<and>
   this_blur (set_blur Null s) = Val 0 \<and>
   this_gaussianBlur (set_gaussianBlur Null s) = Val 0"
  by (simp add: setter_defs valueOrDefault_def)


text \<open>
  Claim C3. After any sequence of setter assignments and \<open>reset\<close> calls, \<open>reset(null)\<close>
  leaves every attribute at the value of the base style: rotation X/Y and skew X/Y are
  \<open>null\<close>, the four alpha overrides are \<open>null\<close>, and both blur strengths are 0.
\<close>

theorem reset_null_restores_base:
  fixes s :: SpanStyles and calls :: "setter_call list"
  defines "s' \<equiv> reset Null (fold perform calls s)"
  defines "base \<equiv> this_defaultStyle s"
  shows
  "this_italic s' = Val (italic base) \<and>
   this_bold s' = Val (bold base) \<and>
   this_underline s' = Val (underline base) \<and>
   this_strikeThrough s' = Val (strikeThrough base) \<and>
   this_outlineWidth s' = Val (outlineThickness base) \<and>
   this_outlineHeight s' = Val (outlineThickness base) \<and>
   this_shadowDepthX s' = Val (shadowDepth base) \<and>
   this_shadowDepthY s' = Val (shadowDepth base) \<and>
   this_fontName s' = Val (fontName base) \<and>
   this_fontSize s' = Val (fontSize base) \<and>
   this_fontScaleX s' = Val (fontScaleX base) \<and>
   this_fontScaleY s' = Val (fontScaleY base) \<and>
   this_letterSpacing s' = Val (letterSpacing base) \<and>
   this_rotationZ s' = Val (rotationZ base) \<and>
   this_primaryColor s' = Val (primaryColor base) \<and>
   this_secondaryColor s' = Val (secondaryColor base) \<and>
   this_outlineColor s' = Val (outlineColor base) \<and>
   this_shadowColor s' = Val (shadowColor base) \<and>
   this_rotationX s' = Null \<and>
   this_rotationY s' = Null \<and>
   this_skewX s' = Null \<and>
   this_skewY s' = Null \<and>
   this_primaryAlpha s' = Null \<and>
   this_secondaryAlpha s' = Null \<and>
   this_outlineAlpha s' = Null \<and>
   this_shadowAlpha s' = Null \<and>
   this_blur s' = Val 0 \<and>
   this_gaussianBlur s' = Val 0"
  unfolding s'_def base_def
  by (simp add: reset_unfold defaultStyle_fold Let_def)

text \<open>
  Claim C10. Only \<open>null\<close> is the sentinel of the setters: \<open>_valueOrDefault\<close> returns the
  default on \<open>null\<close> and returns \<open>undefined\<close> on \<open>undefined\<close>, so every setter with a
  base-style or constant default stores \<open>undefined\<close> when it is assigned \<open>undefined\<close>;
  \<open>reset\<close> does the same on \<open>undefined\<close> as on \<open>null\<close>: with either argument it
  reinitializes every attribute from the base style (rotation X/Y, skew X/Y and the four
  alpha overrides to \<open>null\<close>, both blur strengths to 0), while with a style as argument it
  takes the attributes from that style.
\<close>

theorem undefined_is_not_the_sentinel:
  fixes s :: SpanStyles and d :: "'a jsval" and newStyle :: Style
  defines "base \<equiv> this_defaultStyle s"
  shows
  "valueOrDefault Null d = d \<and>
   valueOrDefault Undefined d = Undefined \<and>
   this_italic (set_italic Undefined s) = Undefined \<and>
   this_bold (set_bold Undefined s) = Undefined \<and>
   this_underline (set_underline Undefined s) = Undefined \<and>
   this_strikeThrough (set_strikeThrough Undefined s) = Undefined \<and>
   this_outlineWidth (set_outlineWidth Undefined s) = Undefined \<and>
   this_outlineHeight (set_outlineHeight Undefined s) = Undefined \<and>
   this_shadowDepthX (set_shadowDepthX Undefined s) = Undefined \<and>
   this_shadowDepthY (set_shadowDepthY Undefined s) = Undefined \<and>
   this_fontName (set_fontName Undefined s) = Undefined \<and>
   this_fontSize (set_fontSize Undefined s) = Undefined \<and>
   this_fontScaleX (set_fontScaleX Undefined s) = Undefined \<and>
   this_fontScaleY (set_fontScaleY Undefined s) = Undefined \<and>
   this_letterSpacing (set_letterSpacing Undefined s) = Undefined \<and>
   this_rotationZ (set_rotationZ Undefined s) = Undefined \<and>
   this_primaryColor (set_primaryColor Undefined s) = Undefined \<and>
   this_secondaryColor (set_secondaryColor Undefined s) = Undefined \<and>
   this_outlineColor (set_outlineColor Undefined s) = Undefined \<and>
   this_shadowColor (set_shadowColor Undefined s) = Undefined \<and>
   this_blur (set_blur Undefined s) = Undefined \<and>
   this_gaussianBlur (set_gaussianBlur Undefined s) = Undefined \<and>
   reset Undefined s = reset Null s \<and>
   reset Undefined s =
     s\<lparr>this_italic := Val (italic base),
       this_bold := Val (bold base),
       this_underline := Val (underline base),
       this_strikeThrough := Val (strikeThrough base),
       this_outlineWidth := Val (outlineThickness base),
       this_outlineHeight := Val (outlineThickness base),
       this_shadowDepthX := Val (shadowDepth base),
       this_shadowDepthY := Val (shadowDepth base),
       this_fontName := Val (fontName base),
       this_fontSize := Val (fontSize base),
       this_fontScaleX := Val (fontScaleX base),
       this_fontScaleY := Val (fontScaleY base),
       this_letterSpacing := Val (letterSpacing base),
       this_rotationX := Null,
       this_rotationY := Null,
       this_rotationZ := Val (rotationZ base),
       this_skewX := Null,
       this_skewY := Null,
       this_primaryColor := Val (primaryColor base),
       this_secondaryColor := Val (secondaryColor base),
       this_outlineColor := Val (outlineColor base),
       this_shadowColor := Val (shadowColor base),
       this_primaryAlpha := Null,
       this_secondaryAlpha := Null,
       this_outlineAlpha := Null,
       this_shadowAlpha := Null,
       this_blur := Val 0,
       this_gaussianBlur := Val 0\<rparr> \<and>
   reset Null s =
     s\<lparr>this_italic := Val (italic base),
       this_bold := Val (bold base),
       this_underline := Val (underline base),
       this_strikeThrough := Val (strikeThrough base),
       this_outlineWidth := Val (outlineThickness base),
       this_outlineHeight := Val (outlineThickness base),
       this_shadowDepthX := Val (shadowDepth base),
       this_shadowDepthY := Val (shadowDepth base),
       this_fontName := Val (fontName base),
       this_fontSize := Val (fontSize base),
       this_fontScaleX := Val (fontScaleX base),
       this_fontScaleY := Val (fontScaleY base),
       this_letterSpacing := Val (letterSpacing base),
       this_rotationX := Null,
       this_rotationY := Null,
       this_rotationZ := Val (rotationZ base),
       this_skewX := Null,
       this_skewY := Null,
       this_primaryColor := Val (primaryColor base),
       this_secondaryColor := Val (secondaryColor base),
       this_outlineColor := Val (outlineColor base),
       this_shadowColor := Val (shadowColor base),
       this_primaryAlpha := Null,
       this_secondaryAlpha := Null,
       this_outlineAlpha := Null,
       this_shadowAlpha := Null,
       this_blur := Val 0,
       this_gaussianBlur := Val 0\<rparr> \<and>
   reset (Val newStyle) s =
     s\<lparr>this_italic := Val (italic newStyle),
       this_bold := Val (bold newStyle),
       this_underline := Val (underline newStyle),
       this_strikeThrough := Val (strikeThrough newStyle),
       this_outlineWidth := Val (outlineThickness newStyle),
       this_outlineHeight := Val (outlineThickness newStyle),
       this_shadowDepthX := Val (shadowDepth newStyle),
       this_shadowDepthY := Val (shadowDepth newStyle),
       this_fontName := Val (fontName newStyle),
       this_fontSize := Val (fontSize newStyle),
       this_fontScaleX := Val (fontScaleX newStyle),
       this_fontScaleY := Val (fontScaleY newStyle),
       this_letterSpacing := Val (letterSpacing newStyle),
       this_rotationX := Null,
       this_rotationY := Null,
       this_rotationZ := Val (rotationZ newStyle),
       this_skewX := Null,
       this_skewY := Null,
       this_primaryColor := Val (primaryColor newStyle),
       this_secondaryColor := Val (secondaryColor newStyle),
       this_outlineColor := Val (outlineColor newStyle),
       this_shadowColor := Val (shadowColor newStyle),
       this_primaryAlpha := Null,
       this_secondaryAlpha := Null,
       this_outlineAlpha := Null,
       this_shadowAlpha := Null,
       this_blur := Val 0,
       this_gaussianBlur := Val 0\<rparr>"
  unfolding base_def
  by (simp add: setter_defs valueOrDefault_def reset_unfold Let_def)


section \<open>Text of some numerals\<close>

lemma char_of_digits:
  "char_of (48::nat) = CHR ''0''" "char_of (49::nat) = CHR ''1''" "char_of (50::nat) = CHR ''2''"
  "char_of (51::nat) = CHR ''3''" "char_of (52::nat) = CHR ''4''" "char_of (53::nat) = CHR ''5''"
  "char_of (54::nat) = CHR ''6''" "char_of (55::nat) = CHR ''7''" "char_of (56::nat) = CHR ''8''"
  "char_of (57::nat) = CHR ''9''"
  by code_simp+

lemma nat_ToString_examples:
  "nat_ToString 0 = ''0''" "nat_ToString 1 = ''1''" "nat_ToString 2 = ''2''"
  "nat_ToString 3 = ''3''" "nat_ToString 5 = ''5''" "nat_ToString 30 = ''30''"
  "nat_ToString 50 = ''50''" "nat_ToString 100 = ''100''"
  "nat_ToString (Suc 0) = ''1''" "nat_ToString (Suc (Suc 0)) = ''2''"
  by code_simp+

lemma toFixed3_examples:
  "toFixed3 env (Finite (Num 0)) = ''0.000''"
  "toFixed3 env (Finite (Num 1)) = ''1.000''"
  "toFixed3 env (Finite (Num 2)) = ''2.000''"
  "toFixed3 env (Finite (Num 5)) = ''5.000''"
  "toFixed3 env (Finite (Num 50)) = ''50.000''"
  "toFixed3 env (Finite (Num 100)) = ''100.000''"
  by (simp_all add: toFixed3.simps Let_def digit_def char_of_digits nat_ToString_examples)


section \<open>Properties of the animation timeline\<close>

lemma note_time_fold:
  "s \<noteq> Null \<Longrightarrow>
   fold note_time ks (s, e) = (s, if ks = [] then e else Val (time (last ks)))"
  by (induction ks arbitrary: e) (simp_all add: note_time_def)

lemma start_end_nonempty:
  "keyframes \<noteq> [] \<Longrightarrow>
   start_end keyframes = (Val (time (hd keyframes)), Val (time (last keyframes)))"
  by (cases keyframes) (simp_all add: start_end_def note_time_fold note_time_def)

lemma fold_add_property:
  "fold add_property ps acc = acc @ concat (map (\<lambda>p. add_property p '''') ps)"
  by (induction ps arbitrary: acc) (simp_all add: add_property_def case_prod_beta)

lemma add_block_append:
  "add_block env start end k acc = acc @ add_block env start end k ''''"
  by (simp add: add_block_def fold_add_property[of _ "_ @ _"] fold_add_property[of _ "TAB @ _"])

lemma fold_add_block:
  "fold (add_block env start end) ks acc
   = acc @ concat (map (\<lambda>k. add_block env start end k '''') ks)"
proof (induction ks arbitrary: acc)
  case Nil
  show ?case by simp
next
  case (Cons k ks)
  have "fold (add_block env start end) (k # ks) acc
          = add_block env start end k acc
            @ concat (map (\<lambda>k. add_block env start end k []) ks)"
    using Cons.IH[of "add_block env start end k acc"] by simp
  also have "add_block env start end k acc = acc @ add_block env start end k []"
    by (rule add_block_append)
  finally show ?case by simp
qed

lemma percentage_Val:
  "percentage (Val s) (Val e) k =
     Finite (Num (if e = s then 100 else 100 * ((time k - s) / (e - s))))"
  by (simp add: percentage_def)

lemma cssText_add:
  "ac_cssText (add env tf ks a) = ac_cssText a
                 @ ''@-webkit-keyframes '' @ animationName a @ '' {'' @ NL
                 @ rule_blocks env (fst (start_end ks)) (snd (start_end ks)) ks @ NL
                 @ ''}'' @ NL
                 @ NL
                 @ ''@keyframes '' @ animationName a @ '' {'' @ NL
                 @ rule_blocks env (fst (start_end ks)) (snd (start_end ks)) ks @ NL
                 @ ''}'' @ NL
                 @ NL"
  by (simp add: add_def Let_def case_prod_beta)


text \<open>
  Claim C5. For a non-empty keyframe list, with \<open>start\<close> the time of the first keyframe and
  \<open>end\<close> the time of the last, the rule text that \<open>add\<close> appends (twice, for the
  prefixed and the standard rule) is the concatenation of one block per keyframe, in order,
  and the block of a keyframe is headed by the three-decimal text of
  \<open>100 * (time - start) / (end - start)\<close>, or of 100 when \<open>end = start\<close>.
\<close>

theorem keyframe_percentages:
  fixes keyframes :: "Keyframe list" and env :: js_environment
  assumes "keyframes \<noteq> []"
  defines "start \<equiv> time (hd keyframes)"
  defines "end \<equiv> time (last keyframes)"
  defines "block \<equiv> \<lambda>k.
      TAB @ toFixed3 env (Finite (Num (if end = start then 100
                                       else 100 * ((time k - start) / (end - start)))))
          @ ''% {'' @ NL
      @ concat (map (\<lambda>(name, v). TAB @ TAB @ name @ '': '' @ v @ '';'' @ NL) (properties k))
      @ TAB @ ''}'' @ NL"
  defines "ruleCssText \<equiv> concat (map block keyframes)"
  shows "ac_cssText (add env timingFunction keyframes a) =
           ac_cssText a
           @ ''@-webkit-keyframes '' @ animationName a @ '' {'' @ NL @ ruleCssText @ NL @ ''}'' @ NL @ NL
           @ ''@keyframes '' @ animationName a @ '' {'' @ NL @ ruleCssText @ NL @ ''}'' @ NL @ NL"
proof -
  have se: "start_end keyframes = (Val start, Val end)"
    using assms(1) by (simp add: start_end_nonempty start_def end_def)
  have blk: "add_block env (Val start) (Val end) k '''' = block k" for k
    unfolding block_def
    by (simp add: add_block_def percentage_Val fold_add_property[of _ "TAB @ _"]
        add_property_def split_def)
  have "rule_blocks env (Val start) (Val end) keyframes = ruleCssText"
    by (simp add: rule_blocks_def fold_add_block[of _ _ _ _ "''''"] blk ruleCssText_def)
  then show ?thesis
    by (simp add: cssText_add se)
qed



theorem keyframe_percentages_witness:
  "[\<lparr>time = 0, properties = [(''opacity'', ''0'')]\<rparr>,
    \<lparr>time = 0, properties = [(''opacity'', ''1'')]\<rparr>] \<noteq> [] \<and>
   ac_cssText (add sample_env ''linear''
      [\<lparr>time = 0, properties = [(''opacity'', ''0'')]\<rparr>,
       \<lparr>time = 0, properties = [(''opacity'', ''1'')]\<rparr>]
      (fst (AnimationCollection_new 1 2 0)))
   = ''@-webkit-keyframes animation-1-0-0 {'' @ NL
     @ TAB @ ''100.000% {'' @ NL @ TAB @ TAB @ ''opacity: 0;'' @ NL @ TAB @ ''}'' @ NL
     @ TAB @ ''100.000% {'' @ NL @ TAB @ TAB @ ''opacity: 1;'' @ NL @ TAB @ ''}'' @ NL
     @ NL @ ''}'' @ NL @ NL
     @ ''@keyframes animation-1-0-0 {'' @ NL
     @ TAB @ ''100.000% {'' @ NL @ TAB @ TAB @ ''opacity: 0;'' @ NL @ TAB @ ''}'' @ NL
     @ TAB @ ''100.000% {'' @ NL @ TAB @ TAB @ ''opacity: 1;'' @ NL @ TAB @ ''}'' @ NL
     @ NL @ ''}'' @ NL @ NL \<and>
   ac_cssText (add sample_env ''linear''
      [\<lparr>time = 0, properties = []\<rparr>, \<lparr>time = 5, properties = []\<rparr>,
       \<lparr>time = 10, properties = []\<rparr>]
      (fst (AnimationCollection_new 1 2 0)))
   = ''@-webkit-keyframes animation-1-0-0 {'' @ NL
     @ TAB @ ''0.000% {'' @ NL @ TAB @ ''}'' @ NL
     @ TAB @ ''50.000% {'' @ NL @ TAB @ ''}'' @ NL
     @ TAB @ ''100.000% {'' @ NL @ TAB @ ''}'' @ NL
     @ NL @ ''}'' @ NL @ NL
     @ ''@keyframes animation-1-0-0 {'' @ NL
     @ TAB @ ''0.000% {'' @ NL @ TAB @ ''}'' @ NL
     @ TAB @ ''50.000% {'' @ NL @ TAB @ ''}'' @ NL
     @ TAB @ ''100.000% {'' @ NL @ TAB @ ''}'' @ NL
     @ NL @ ''}'' @ NL @ NL"
  using keyframe_percentages[where keyframes =
      "[\<lparr>time = 0, properties = [(''opacity'', ''0'')]\<rparr>,
        \<lparr>time = 0, properties = [(''opacity'', ''1'')]\<rparr>]"
      and env = sample_env and timingFunction = "''linear''"
      and a = "fst (AnimationCollection_new 1 2 0)"]
    keyframe_percentages[where keyframes =
      "[\<lparr>time = 0, properties = []\<rparr>, \<lparr>time = 5, properties = []\<rparr>,
        \<lparr>time = 10, properties = []\<rparr>]"
      and env = sample_env and timingFunction = "''linear''"
      and a = "fst (AnimationCollection_new 1 2 0)"]
  by (simp add: toFixed3_examples AnimationCollection_new_def animationName_def
      nat_ToString_examples)


lemma nat_ToString_nonempty: "nat_ToString n \<noteq> []" "[] \<noteq> nat_ToString n"
  by (subst nat_ToString.simps, simp)+

lemma char_of_digit_inj:
  "a < 10 \<Longrightarrow> b < 10 \<Longrightarrow> (char_of (48 + a) :: char) = char_of (48 + b) \<Longrightarrow> a = (b::nat)"
  by (simp add: char_of_eq_iff take_bit_eq_mod)

lemma nat_ToString_inj: "nat_ToString n = nat_ToString m \<Longrightarrow> n = m"
proof (induction n arbitrary: m rule: nat_ToString.induct)
  case (1 n)
  show ?case
  proof (cases "n < 10")
    case small_n: True
    show ?thesis
    proof (cases "m < 10")
      case True
      with small_n "1.prems" show ?thesis
        by (simp add: nat_ToString.simps[of n] nat_ToString.simps[of m] char_of_digit_inj)
    next
      case False
      with small_n "1.prems" show ?thesis
        by (simp add: nat_ToString.simps[of n] nat_ToString.simps[of m] nat_ToString_nonempty)
    qed
  next
    case big_n: False
    show ?thesis
    proof (cases "m < 10")
      case True
      with big_n "1.prems" show ?thesis
        by (simp add: nat_ToString.simps[of n] nat_ToString.simps[of m] nat_ToString_nonempty)
    next
      case False
      with big_n "1.prems"
      have eq: "nat_ToString (n div 10) = nat_ToString (m div 10)"
        and last: "(char_of (48 + n mod 10) :: char) = char_of (48 + m mod 10)"
        by (simp_all add: nat_ToString.simps[of n] nat_ToString.simps[of m])
      from "1.IH"[OF big_n eq] have "n div 10 = m div 10" .
      moreover from last have "n mod 10 = m mod 10"
        by (intro char_of_digit_inj) simp_all
      ultimately show ?thesis
        by (metis div_mult_mod_eq)
    qed
  qed
qed

lemma update_new_key:
  "k \<notin> fst ` set al \<Longrightarrow> AList.update k v al = al @ [(k, v)]"
  by (induction al) auto

lemma names_distinct: "distinct (map (\<lambda>k. ''animation-'' @ i @ ''-'' @ nat_ToString k) [0..<n])"
  by (simp add: distinct_map inj_on_def nat_ToString_inj)

lemma add_fields:
  "ac_id (add env tf ks a) = ac_id a"
  "ac_numAnimations (add env tf ks a) = ac_numAnimations a + 1"
  "ac_animationDelays (add env tf ks a) =
     AList.update (animationName a) (fst (start_end ks)) (ac_animationDelays a)"
  by (simp_all add: add_def Let_def case_prod_beta)

lemma add_names:
  assumes "map fst (ac_animationDelays a)
           = map (\<lambda>k. ''animation-'' @ ac_id a @ ''-'' @ nat_ToString k) [0..<ac_numAnimations a]"
  shows "map fst (ac_animationDelays (add env tf ks a))
         = map fst (ac_animationDelays a) @ [animationName a]"
proof -
  have "animationName a \<notin> set (map fst (ac_animationDelays a))"
    unfolding assms by (auto simp: animationName_def dest: nat_ToString_inj)
  then show ?thesis
    by (simp add: add_fields update_new_key)
qed

lemma fold_add_names:
  assumes "map fst (ac_animationDelays a)
           = map (\<lambda>k. ''animation-'' @ ac_id a @ ''-'' @ nat_ToString k) [0..<ac_numAnimations a]"
  shows "ac_id (fold (\<lambda>(tf, ks). add env tf ks) calls a) = ac_id a \<and>
         ac_numAnimations (fold (\<lambda>(tf, ks). add env tf ks) calls a)
           = ac_numAnimations a + length calls \<and>
         map fst (ac_animationDelays (fold (\<lambda>(tf, ks). add env tf ks) calls a))
           = map (\<lambda>k. ''animation-'' @ ac_id a @ ''-'' @ nat_ToString k)
                 [0..<ac_numAnimations a + length calls]"
  using assms
proof (induction calls arbitrary: a)
  case Nil
  then show ?case by simp
next
  case (Cons c calls)
  obtain tf ks where c: "c = (tf, ks)" by (cases c)
  let ?a = "add env tf ks a"
  have "map fst (ac_animationDelays ?a)
        = map (\<lambda>k. ''animation-'' @ ac_id ?a @ ''-'' @ nat_ToString k) [0..<ac_numAnimations ?a]"
    using add_names[OF Cons.prems, of env tf ks]
    by (simp add: add_fields Cons.prems animationName_def)
  from Cons.IH[OF this] show ?case
    by (simp add: c add_fields)
qed


lemma fold_add_texts:
  fixes env :: js_environment and a :: AnimationCollection
  defines "name \<equiv> \<lambda>k. ''animation-'' @ ac_id a @ ''-'' @ nat_ToString k"
  defines "n \<equiv> ac_numAnimations a"
  shows "ac_rate (fold (\<lambda>(tf, ks). add env tf ks) calls a) = ac_rate a \<and>
         ac_cssText (fold (\<lambda>(tf, ks). add env tf ks) calls a)
           = ac_cssText a @ concat (map (\<lambda>(k, tf, ks).
                 ''@-webkit-keyframes '' @ name k @ '' {'' @ NL
                 @ rule_blocks env (fst (start_end ks)) (snd (start_end ks)) ks @ NL
                 @ ''}'' @ NL
                 @ NL
                 @ ''@keyframes '' @ name k @ '' {'' @ NL
                 @ rule_blocks env (fst (start_end ks)) (snd (start_end ks)) ks @ NL
                 @ ''}'' @ NL
                 @ NL) (zip [n..<n + length calls] calls))"
  unfolding name_def n_def
proof (induction calls arbitrary: a)
  case Nil
  then show ?case by simp
next
  case (Cons c calls)
  obtain tf ks where c: "c = (tf, ks)" by (cases c)
  have r: "ac_rate (add env tf ks a) = ac_rate a"
    by (simp add: add_def Let_def case_prod_beta)
  have u: "[ac_numAnimations a..<ac_numAnimations a + length (c # calls)]
           = ac_numAnimations a # [ac_numAnimations a + 1..<ac_numAnimations a + 1 + length calls]"
    by (subst upt_conv_Cons) simp_all
  show ?case
    unfolding u
    using Cons.IH[of "add env tf ks a"]
    by (simp add: c add_fields r cssText_add animationName_def)
qed

lemma animationStyle_add:
  "ac_animationStyle (add env tf ks a) = ac_animationStyle a
     @ (if ac_animationStyle a \<noteq> '''' then '','' else '''')
     @ animationName a @ '' ''
     @ toFixed3 env (js_divide (js_minus (ToNumber (snd (start_end ks)))
                                         (ToNumber (fst (start_end ks))))
                               (Num (ac_rate a)))
     @ ''s '' @ tf"
  by (simp add: add_def Let_def case_prod_beta)

lemma rate_add: "ac_rate (add env tf ks a) = ac_rate a"
  by (simp add: add_def Let_def case_prod_beta)

lemma animationStyle_add_nonempty: "ac_animationStyle (add env tf ks a) \<noteq> ''''"
  by (simp add: animationStyle_add animationName_def)

lemma fold_add_animationStyle:
  fixes env :: js_environment and a :: AnimationCollection
  defines "name \<equiv> \<lambda>k. ''animation-'' @ ac_id a @ ''-'' @ nat_ToString k"
  defines "n \<equiv> ac_numAnimations a"
  shows "ac_animationStyle (fold (\<lambda>(tf, ks). add env tf ks) calls a)
           = ac_animationStyle a
             @ drop (if ac_animationStyle a = '''' then 1 else 0)
                 (concat (map (\<lambda>(k, tf, ks).
                    '','' @ name k @ '' ''
                    @ toFixed3 env (js_divide (js_minus (ToNumber (snd (start_end ks)))
                                                        (ToNumber (fst (start_end ks))))
                                              (Num (ac_rate a)))
                    @ ''s '' @ tf) (zip [n..<n + length calls] calls)))"
  unfolding name_def n_def
proof (induction calls arbitrary: a)
  case Nil
  then show ?case by simp
next
  case (Cons c calls)
  obtain tf ks where c: "c = (tf, ks)" by (cases c)
  have u: "[ac_numAnimations a..<ac_numAnimations a + length (c # calls)]
           = ac_numAnimations a # [ac_numAnimations a + 1..<ac_numAnimations a + 1 + length calls]"
    by (subst upt_conv_Cons) simp_all
  show ?case
    unfolding u
    using Cons.IH[of "add env tf ks a"] animationStyle_add_nonempty[of env tf ks a]
    by (simp add: c add_fields rate_add animationStyle_add animationName_def)
qed

lemma fold_add_delays:
  assumes "map fst (ac_animationDelays a)
           = map (\<lambda>k. ''animation-'' @ ac_id a @ ''-'' @ nat_ToString k) [0..<ac_numAnimations a]"
  shows "ac_animationDelays (fold (\<lambda>(tf, ks). add env tf ks) calls a)
           = ac_animationDelays a
             @ map (\<lambda>(k, tf, ks). (''animation-'' @ ac_id a @ ''-'' @ nat_ToString k,
                                     fst (start_end ks)))
                   (zip [ac_numAnimations a..<ac_numAnimations a + length calls] calls)"
  using assms
proof (induction calls arbitrary: a)
  case Nil
  then show ?case by simp
next
  case (Cons c calls)
  obtain tf ks where c: "c = (tf, ks)" by (cases c)
  let ?a = "add env tf ks a"
  have u: "[ac_numAnimations a..<ac_numAnimations a + length (c # calls)]
           = ac_numAnimations a # [ac_numAnimations a + 1..<ac_numAnimations a + 1 + length calls]"
    by (subst upt_conv_Cons) simp_all
  have "animationName a \<notin> set (map fst (ac_animationDelays a))"
    unfolding Cons.prems by (auto simp: animationName_def dest: nat_ToString_inj)
  then have new: "animationName a \<notin> fst ` set (ac_animationDelays a)"
    by simp
  have d: "ac_animationDelays ?a = ac_animationDelays a @ [(animationName a, fst (start_end ks))]"
    by (simp add: add_fields update_new_key[OF new])
  have "map fst (ac_animationDelays ?a)
        = map (\<lambda>k. ''animation-'' @ ac_id ?a @ ''-'' @ nat_ToString k) [0..<ac_numAnimations ?a]"
    using add_names[OF Cons.prems, of env tf ks]
    by (simp add: add_fields Cons.prems animationName_def)
  from Cons.IH[OF this] show ?case
    unfolding u by (simp add: c add_fields(1,2) d animationName_def)
qed

lemma fold_add_nonempty:
  "ac_animationStyle a = '''' \<Longrightarrow>
   ac_animationStyle (fold (\<lambda>(tf, ks). add env tf ks) calls a) = '''' \<longleftrightarrow> calls = []"
  by (cases calls rule: rev_cases) (simp_all add: animationStyle_add_nonempty case_prod_beta)


text \<open>
  Claim C6. On a new timeline, after any \<open>N\<close> calls of \<open>add\<close> the names registered in
  the delay table are \<open>animation-<id>-0\<close>, ..., \<open>animation-<id>-(N-1)\<close> in call order,
  they are pairwise distinct, and the counter is \<open>N\<close>. Each call has appended exactly one
  named animation: the delay table holds one entry per call, the name of the call with its
  start time; the style sheet text is one pair of keyframes rules per call, under the name of
  the call; the animation style is one entry per call, name, duration and timing function,
  the entries separated by commas. One more \<open>add\<close> appends exactly the animation named
  \<open>animation-<id>-N\<close> to the three of them, increments the counter, and changes nothing
  else.
\<close>

theorem animation_names:
  fixes calls :: "(string \<times> Keyframe list) list" and env :: js_environment
    and renderer_id nextId :: nat and rate :: real
  defines "a0 \<equiv> fst (AnimationCollection_new renderer_id rate nextId)"
  defines "a \<equiv> fold (\<lambda>(timingFunction, keyframes). add env timingFunction keyframes) calls a0"
  defines "name \<equiv> \<lambda>k. ''animation-'' @ ac_id a0 @ ''-'' @ nat_ToString k"
  defines "rule \<equiv> \<lambda>k keyframes.
     ''@-webkit-keyframes '' @ name k @ '' {'' @ NL
     @ rule_blocks env (fst (start_end keyframes)) (snd (start_end keyframes)) keyframes @ NL
     @ ''}'' @ NL
     @ NL
     @ ''@keyframes '' @ name k @ '' {'' @ NL
     @ rule_blocks env (fst (start_end keyframes)) (snd (start_end keyframes)) keyframes @ NL
     @ ''}'' @ NL
     @ NL"
  defines "entry \<equiv> \<lambda>k timingFunction keyframes.
     name k @ '' ''
     @ toFixed3 env (js_divide (js_minus (ToNumber (snd (start_end keyframes)))
                                         (ToNumber (fst (start_end keyframes))))
                               (Num rate))
     @ ''s '' @ timingFunction"
  shows "map fst (ac_animationDelays a) = map name [0..<length calls] \<and>
         distinct (map name [0..<length calls]) \<and>
         ac_numAnimations a = length calls \<and>
         map fst (ac_animationDelays (add env timingFunction keyframes a))
           = map fst (ac_animationDelays a) @ [name (length calls)] \<and>
         ac_animationDelays a
           = map (\<lambda>(k, timingFunction, keyframes). (name k, fst (start_end keyframes)))
                 (zip [0..<length calls] calls) \<and>
         ac_cssText a
           = concat (map (\<lambda>(k, timingFunction, keyframes). rule k keyframes)
                         (zip [0..<length calls] calls)) \<and>
         ac_animationStyle a
           = drop 1 (concat (map (\<lambda>(k, timingFunction, keyframes).
                                    '','' @ entry k timingFunction keyframes)
                                 (zip [0..<length calls] calls))) \<and>
         add env timingFunction keyframes a
           = a\<lparr>ac_cssText := ac_cssText a @ rule (length calls) keyframes,
               ac_animationStyle := ac_animationStyle a @ (if calls = [] then '''' else '','')
                                    @ entry (length calls) timingFunction keyframes,
               ac_animationDelays := ac_animationDelays a
                                     @ [(name (length calls), fst (start_end keyframes))],
               ac_numAnimations := length calls + 1\<rparr>"
proof -
  have init: "map fst (ac_animationDelays a0)
        = map (\<lambda>k. ''animation-'' @ ac_id a0 @ ''-'' @ nat_ToString k) [0..<ac_numAnimations a0]"
    by (simp add: a0_def AnimationCollection_new_def)
  have n0: "ac_numAnimations a0 = 0" and c0: "ac_cssText a0 = ''''"
    and s0: "ac_animationStyle a0 = ''''" and d0: "ac_animationDelays a0 = []"
    and r0: "ac_rate a0 = rate"
    by (simp_all add: a0_def AnimationCollection_new_def)
  note inv = fold_add_names[OF init, of env calls, folded a_def, unfolded n0]
  have names: "map fst (ac_animationDelays a) = map name [0..<length calls]"
    unfolding name_def using inv by simp
  have count: "ac_numAnimations a = length calls"
    using inv by simp
  have new_name: "animationName a = name (length calls)"
    using inv by (simp add: name_def animationName_def)
  have inv_a: "map fst (ac_animationDelays a)
        = map (\<lambda>k. ''animation-'' @ ac_id a @ ''-'' @ nat_ToString k) [0..<ac_numAnimations a]"
    using inv by simp
  have "map fst (ac_animationDelays (add env timingFunction keyframes a))
           = map fst (ac_animationDelays a) @ [animationName a]"
    by (rule add_names) (rule inv_a)
  then have step: "map fst (ac_animationDelays (add env timingFunction keyframes a))
           = map fst (ac_animationDelays a) @ [name (length calls)]"
    by (simp only: new_name)
  have dist: "distinct (map name [0..<length calls])"
    unfolding name_def by (rule names_distinct)
  have delays: "ac_animationDelays a
           = map (\<lambda>(k, timingFunction, keyframes). (name k, fst (start_end keyframes)))
                 (zip [0..<length calls] calls)"
    using fold_add_delays[OF init, of env calls, folded a_def]
    by (simp add: n0 d0 name_def)
  have css: "ac_cssText a
           = concat (map (\<lambda>(k, timingFunction, keyframes). rule k keyframes)
                         (zip [0..<length calls] calls))"
    using fold_add_texts[of env calls a0, folded a_def]
    by (simp add: n0 c0 name_def rule_def)
  have rate: "ac_rate a = rate"
    using fold_add_texts[of env calls a0, folded a_def] by (simp add: r0)
  have style: "ac_animationStyle a
           = drop 1 (concat (map (\<lambda>(k, timingFunction, keyframes).
                                    '','' @ entry k timingFunction keyframes)
                                 (zip [0..<length calls] calls)))"
    using fold_add_animationStyle[of env calls a0, folded a_def]
    by (simp add: n0 s0 r0 name_def entry_def)
  have empty: "ac_animationStyle a = '''' \<longleftrightarrow> calls = []"
    unfolding a_def by (rule fold_add_nonempty) (rule s0)
  have "animationName a \<notin> set (map fst (ac_animationDelays a))"
    unfolding names new_name
    by (auto simp: name_def dest: nat_ToString_inj)
  then have fresh: "animationName a \<notin> fst ` set (ac_animationDelays a)"
    by simp
  have one: "add env timingFunction keyframes a
           = a\<lparr>ac_cssText := ac_cssText a @ rule (length calls) keyframes,
               ac_animationStyle := ac_animationStyle a @ (if calls = [] then '''' else '','')
                                    @ entry (length calls) timingFunction keyframes,
               ac_animationDelays := ac_animationDelays a
                                     @ [(name (length calls), fst (start_end keyframes))],
               ac_numAnimations := length calls + 1\<rparr>"
  proof (rule AnimationCollection.equality)
    show "ac_cssText (add env timingFunction keyframes a) = ac_cssText (a\<lparr>ac_cssText := ac_cssText a @ rule (length calls) keyframes,
               ac_animationStyle := ac_animationStyle a @ (if calls = [] then '''' else '','')
                                    @ entry (length calls) timingFunction keyframes,
               ac_animationDelays := ac_animationDelays a
                                     @ [(name (length calls), fst (start_end keyframes))],
               ac_numAnimations := length calls + 1\<rparr>)"
      by (simp add: cssText_add new_name rule_def)
    show "ac_animationStyle (add env timingFunction keyframes a) = ac_animationStyle (a\<lparr>ac_cssText := ac_cssText a @ rule (length calls) keyframes,
               ac_animationStyle := ac_animationStyle a @ (if calls = [] then '''' else '','')
                                    @ entry (length calls) timingFunction keyframes,
               ac_animationDelays := ac_animationDelays a
                                     @ [(name (length calls), fst (start_end keyframes))],
               ac_numAnimations := length calls + 1\<rparr>)"
      by (simp add: animationStyle_add new_name entry_def rate empty)
    show "ac_animationDelays (add env timingFunction keyframes a) = ac_animationDelays (a\<lparr>ac_cssText := ac_cssText a @ rule (length calls) keyframes,
               ac_animationStyle := ac_animationStyle a @ (if calls = [] then '''' else '','')
                                    @ entry (length calls) timingFunction keyframes,
               ac_animationDelays := ac_animationDelays a
                                     @ [(name (length calls), fst (start_end keyframes))],
               ac_numAnimations := length calls + 1\<rparr>)"
      using update_new_key[OF fresh, of "fst (start_end keyframes)"]
      by (simp add: add_fields(3) new_name)
  qed (simp_all add: add_def Let_def case_prod_beta count)
  from names dist count step delays css style one show ?thesis
    by blast
qed

theorem animation_names_witness:
  "map fst (ac_animationDelays
     (fold (\<lambda>(timingFunction, keyframes). add sample_env timingFunction keyframes)
        [(''linear'', [\<lparr>time = 0, properties = []\<rparr>, \<lparr>time = 10, properties = []\<rparr>]),
         (''ease'', [\<lparr>time = 3, properties = []\<rparr>]),
         (''linear'', [])]
        (fst (AnimationCollection_new 1 2 0))))
   = [''animation-1-0-0'', ''animation-1-0-1'', ''animation-1-0-2''] \<and>
   ac_animationStyle
     (fold (\<lambda>(timingFunction, keyframes). add sample_env timingFunction keyframes)
        [(''linear'', [\<lparr>time = 0, properties = []\<rparr>, \<lparr>time = 10, properties = []\<rparr>]),
         (''ease'', [\<lparr>time = 3, properties = []\<rparr>]),
         (''linear'', [])]
        (fst (AnimationCollection_new 1 2 0)))
   = ''animation-1-0-0 5.000s linear,animation-1-0-1 0.000s ease,animation-1-0-2 0.000s linear'' \<and>
   ac_animationDelays
     (fold (\<lambda>(timingFunction, keyframes). add sample_env timingFunction keyframes)
        [(''linear'', [\<lparr>time = 0, properties = []\<rparr>, \<lparr>time = 10, properties = []\<rparr>]),
         (''ease'', [\<lparr>time = 3, properties = []\<rparr>]),
         (''linear'', [])]
        (fst (AnimationCollection_new 1 2 0)))
   = [(''animation-1-0-0'', Val 0), (''animation-1-0-1'', Val 3), (''animation-1-0-2'', Null)]"
proof -
  let ?calls = "[(''linear'', [\<lparr>time = 0, properties = []\<rparr>, \<lparr>time = 10, properties = []\<rparr>]),
         (''ease'', [\<lparr>time = 3, properties = []\<rparr>]),
         (''linear'', [])]"
  note t = animation_names[where calls = ?calls and env = sample_env and renderer_id = 1
        and rate = 2 and nextId = 0 and timingFunction = "''linear''" and keyframes = "[]"]
  have z: "zip [0..<length ?calls] ?calls
           = [(0, ''linear'', [\<lparr>time = 0, properties = []\<rparr>, \<lparr>time = 10, properties = []\<rparr>]),
              (1, ''ease'', [\<lparr>time = 3, properties = []\<rparr>]),
              (2, ''linear'', [])]"
    by (simp add: upt_rec[of 0] upt_rec[of 1] upt_rec[of 2] upt_rec[of 3])
  have u: "[0..<length ?calls] = [0, 1, 2]"
    by (simp add: upt_rec[of 0] upt_rec[of 1] upt_rec[of 2] upt_rec[of 3])
  have se: "start_end [\<lparr>time = 0, properties = []\<rparr>, \<lparr>time = 10, properties = []\<rparr>] = (Val 0, Val 10)"
    "start_end [\<lparr>time = 3, properties = []\<rparr>] = (Val 3, Val 3)"
    "start_end [] = (Null, Null)"
    by (simp_all add: start_end_def note_time_def)
  have id: "ac_id (fst (AnimationCollection_new 1 2 0)) = ''1-0''"
    by (simp add: AnimationCollection_new_def nat_ToString_examples)
  have n: "map fst (ac_animationDelays (fold (\<lambda>(timingFunction, keyframes). add sample_env timingFunction keyframes) ?calls (fst (AnimationCollection_new 1 2 0))))
        = [''animation-1-0-0'', ''animation-1-0-1'', ''animation-1-0-2'']"
    using t[THEN conjunct1] unfolding u id
    by (simp add: nat_ToString_examples del: fold_simps)
  have st: "ac_animationStyle (fold (\<lambda>(timingFunction, keyframes). add sample_env timingFunction keyframes) ?calls (fst (AnimationCollection_new 1 2 0)))
        = ''animation-1-0-0 5.000s linear,animation-1-0-1 0.000s ease,animation-1-0-2 0.000s linear''"
    using t[THEN conjunct2, THEN conjunct2, THEN conjunct2, THEN conjunct2, THEN conjunct2,
            THEN conjunct2, THEN conjunct1] unfolding z id
    by (simp add: se nat_ToString_examples toFixed3_examples del: fold_simps)
  have dl: "ac_animationDelays (fold (\<lambda>(timingFunction, keyframes). add sample_env timingFunction keyframes) ?calls (fst (AnimationCollection_new 1 2 0)))
        = [(''animation-1-0-0'', Val 0), (''animation-1-0-1'', Val 3), (''animation-1-0-2'', Null)]"
    using t[THEN conjunct2, THEN conjunct2, THEN conjunct2, THEN conjunct2, THEN conjunct1]
    unfolding z id
    by (simp add: se nat_ToString_examples del: fold_simps)
  from n st dl show ?thesis by (simp only: simp_thms)
qed



section \<open>Properties of the rendering\<close>

lemma statements_simps:
  "statements [] x = x"
  "statements (f # fs) x = statements fs (f x)"
  by (simp_all add: statements_def)

lemma append_if: "(if c then t @ p else t) = t @ (if c then p else [])"
  by simp

lemma transform_unfold:
  "transform env s isTextOnlySpan =
     (if isTextOnlySpan then
        (if this_fontScaleY s \<noteq> this_fontScaleX s
         then ''scaleY(''
                @ toFixed3 env (js_divide (ToNumber (this_fontScaleY s)) (ToNumber (this_fontScaleX s)))
                @ '') ''
         else '''')
      else
        (if this_fontScaleX s \<noteq> Val 1
         then ''scaleX('' @ ToString env (this_fontScaleX s) @ '') '' else '''')
        @ (if this_fontScaleY s \<noteq> Val 1
           then ''scaleY('' @ ToString env (this_fontScaleY s) @ '') '' else ''''))
     @ (if this_rotationY s \<noteq> Null
        then ''rotateY('' @ ToString env (this_rotationY s) @ ''deg) '' else '''')
     @ (if this_rotationX s \<noteq> Null
        then ''rotateX('' @ ToString env (this_rotationX s) @ ''deg) '' else '''')
     @ (if this_rotationZ s \<noteq> Val 0
        then ''rotateZ(''
               @ jsnum_ToString env (js_times (Num (- 1)) (ToNumber (this_rotationZ s)))
               @ ''deg) ''
        else '''')
     @ (if this_skewX s \<noteq> Null \<or> this_skewY s \<noteq> Null
        then ''matrix(1, ''
               @ ToString env (valueOrDefault (this_skewY s) (Val 0)) @ '', ''
               @ ToString env (valueOrDefault (this_skewX s) (Val 0))
               @ '', 1, 0, 0) ''
        else '''')"
  unfolding transform_def statements_simps append_if Let_def
  by (simp split del: if_split cong: if_cong)




lemma outline_and_blur_frame:
  assumes "outline_and_blur env s c st = Inr (a, b, st')"
  shows "st' = st\<lparr>style_textShadow := style_textShadow st'\<rparr>"
  using assms
  by (auto simp: outline_and_blur_def Let_def split: if_splits jsval.splits)

lemma drop_shadow_frame:
  assumes "drop_shadow env s st = Inr st'"
  shows "st' = st\<lparr>style_textShadow := style_textShadow st'\<rparr>"
  using assms
  by (auto simp: drop_shadow_def Let_def split: if_splits jsval.splits)

lemma setStylesOnSpan_Inr:
  assumes "setStylesOnSpan env el span_el ac s fonts = (Inr r, s', fonts')"
  obtains c1 c2 outlineFilter blurFilter st1 st2 where
    "this_primaryColor s = Val c1"
    "this_outlineColor s = Val c2"
    "outline_and_blur env s (Color_text env c2 (this_outlineAlpha s))
       ((font_to_letterSpacing env
           (fst (getFontSize el (this_fontName s) (lookup_size s (firstChildIsText span_el)) fonts))
           s (firstChildIsText span_el) (style span_el))
          \<lparr>style_color := Color_text env c1 (this_primaryAlpha s)\<rparr>)
     = Inr (outlineFilter, blurFilter, st1)"
    "drop_shadow env s st1 = Inr st2"
    "span_style r = st2\<lparr>style_webkitAnimation := ac_animationStyle ac,
                          style_animation := ac_animationStyle ac\<rparr>"
    "filterWrapperSpan_style r =
       wrapper_display s
         (wrapper_filter (''svg-filter-'' @ this_id s @ ''-'' @ nat_ToString (this_nextFilterId s))
            outlineFilter blurFilter)"
    "svgDefs_appended r =
       filter_definitions (''svg-filter-'' @ this_id s @ ''-'' @ nat_ToString (this_nextFilterId s))
         outlineFilter blurFilter"
  using assms
  unfolding setStylesOnSpan_def Let_def
  by (auto split: prod.splits jsval.splits sum.splits)

lemma setStylesOnSpan_fonts:
  "snd (snd (setStylesOnSpan env el span_el ac s fonts))
   = snd (getFontSize el (this_fontName s) (lookup_size s (firstChildIsText span_el)) fonts)"
  unfolding setStylesOnSpan_def Let_def
  by (auto split: prod.splits jsval.splits sum.splits)

lemma font_to_letterSpacing_transform:
  "style_transform (font_to_letterSpacing env cached s isText st) =
     (if transform env s isText \<noteq> '''' then transform env s isText else style_transform st)"
  "style_display (font_to_letterSpacing env cached s isText st) =
     (if transform env s isText \<noteq> '''' then ''inline-block'' else style_display st)"
  by (simp_all add: font_to_letterSpacing_def Let_def set_transform_def)

lemma setStylesOnSpan_transform:
  assumes "setStylesOnSpan env el span_el ac s fonts = (Inr r, s', fonts')"
  shows "style_transform (span_style r) =
           (if transform env s (firstChildIsText span_el) \<noteq> ''''
            then transform env s (firstChildIsText span_el) else style_transform (style span_el))"
    and "style_display (span_style r) =
           (if transform env s (firstChildIsText span_el) \<noteq> ''''
            then ''inline-block'' else style_display (style span_el))"
proof -
  from assms obtain c1 c2 outlineFilter blurFilter st1 st2 where
    ob: "outline_and_blur env s (Color_text env c2 (this_outlineAlpha s))
       ((font_to_letterSpacing env
           (fst (getFontSize el (this_fontName s) (lookup_size s (firstChildIsText span_el)) fonts))
           s (firstChildIsText span_el) (style span_el))
          \<lparr>style_color := Color_text env c1 (this_primaryAlpha s)\<rparr>)
     = Inr (outlineFilter, blurFilter, st1)"
    and ds: "drop_shadow env s st1 = Inr st2"
    and r: "span_style r = st2\<lparr>style_webkitAnimation := ac_animationStyle ac,
                          style_animation := ac_animationStyle ac\<rparr>"
    by (rule setStylesOnSpan_Inr)
  note f1 = outline_and_blur_frame[OF ob] and f2 = drop_shadow_frame[OF ds]
  have "style_transform st2 = style_transform st1" "style_display st2 = style_display st1"
    by (subst f2, simp)+
  moreover have "style_transform st1 = style_transform (font_to_letterSpacing env
           (fst (getFontSize el (this_fontName s) (lookup_size s (firstChildIsText span_el)) fonts))
           s (firstChildIsText span_el) (style span_el))"
     "style_display st1 = style_display (font_to_letterSpacing env
           (fst (getFontSize el (this_fontName s) (lookup_size s (firstChildIsText span_el)) fonts))
           s (firstChildIsText span_el) (style span_el))"
    by (subst f1, simp)+
  ultimately show "style_transform (span_style r) =
           (if transform env s (firstChildIsText span_el) \<noteq> ''''
            then transform env s (firstChildIsText span_el) else style_transform (style span_el))"
    and "style_display (span_style r) =
           (if transform env s (firstChildIsText span_el) \<noteq> ''''
            then ''inline-block'' else style_display (style span_el))"
    by (simp_all add: r font_to_letterSpacing_transform)
qed

lemma integer_text_examples:
  "integer_text 0 = ''0''" "integer_text 1 = ''1''" "integer_text 2 = ''2''"
  "integer_text 10 = ''10''" "integer_text 20 = ''20''" "integer_text (- 30) = ''-30''"
  "integer_text 255 = ''255''"
proof -
  have "nat_ToString 0 = ''0''" "nat_ToString 1 = ''1''" "nat_ToString 2 = ''2''"
    "nat_ToString 10 = ''10''" "nat_ToString 20 = ''20''" "nat_ToString 30 = ''30''"
    "nat_ToString 255 = ''255''" "nat_ToString (Suc 0) = ''1''"
    by code_simp+
  then show "integer_text 0 = ''0''" "integer_text 1 = ''1''" "integer_text 2 = ''2''"
  "integer_text 10 = ''10''" "integer_text 20 = ''20''" "integer_text (- 30) = ''-30''"
  "integer_text 255 = ''255''"
    by (simp_all add: integer_text_def)
qed

lemma SpanStyles_new_unfold:
  "SpanStyles_new rid did st sx sy se =
     \<lparr>this_id = nat_ToString rid @ ''-'' @ nat_ToString did,
       this_defaultStyle = st,
       this_italic = Val (italic st), this_bold = Val (bold st), this_underline = Val (underline st),
       this_strikeThrough = Val (strikeThrough st), this_outlineWidth = Val (outlineThickness st),
       this_outlineHeight = Val (outlineThickness st), this_shadowDepthX = Val (shadowDepth st),
       this_shadowDepthY = Val (shadowDepth st), this_fontName = Val (fontName st), this_fontSize = Val (fontSize st),
       this_fontScaleX = Val (fontScaleX st), this_fontScaleY = Val (fontScaleY st),
       this_letterSpacing = Val (letterSpacing st), this_rotationX = Null,
       this_rotationY = Null, this_rotationZ = Val (rotationZ st), this_skewX = Null,
       this_skewY = Null, this_primaryColor = Val (primaryColor st),
       this_secondaryColor = Val (secondaryColor st), this_outlineColor = Val (outlineColor st),
       this_shadowColor = Val (shadowColor st), this_primaryAlpha = Null,
       this_secondaryAlpha = Null, this_outlineAlpha = Null,
       this_shadowAlpha = Null, this_blur = Val 0, this_gaussianBlur = Val 0,
       this_nextFilterId = 0, this_scaleX = sx, this_scaleY = sy,
       this_settings = se\<rparr>"
  by (simp add: SpanStyles_new_def reset_unfold)

lemma toFixed3_2: "toFixed3 env (Finite (Num 2)) = ''2.000''"
proof -
  have "nat_ToString 2 = ''2''" by code_simp
  then show ?thesis by (simp add: toFixed3.simps Let_def digit_def char_of_digits)
qed

lemma getFontSize_first:
  "getFontSize el fam lh no_font_sizes =
     (js_divide (js_times lh lh) (Num (el fam lh)),
      \<lparr>fontSizeCache = [fam \<mapsto> [lh \<mapsto> js_divide (js_times lh lh) (Num (el fam lh))]],
       measured = [(fam, lh)]\<rparr>)"
  by (simp add: getFontSize_def no_font_sizes_def Let_def)

lemma outline_and_blur_returns:
  assumes "enableSvg (this_settings s) \<or> this_gaussianBlur s = Val g"
  shows "\<exists>a b st'. outline_and_blur env s c st = Inr (a, b, st')"
  using assms by (auto simp: outline_and_blur_def Let_def)

lemma drop_shadow_returns:
  assumes "this_shadowColor s = Val c3"
  shows "\<exists>st'. drop_shadow env s st = Inr st'"
  using assms by (auto simp: drop_shadow_def Let_def)

lemma setStylesOnSpan_returns:
  assumes "this_primaryColor s = Val c1" "this_outlineColor s = Val c2"
    "this_shadowColor s = Val c3"
    "enableSvg (this_settings s) \<or> this_gaussianBlur s = Val g"
  shows "\<exists>r. fst (setStylesOnSpan env el span_el ac s fonts) = Inr r"
proof -
  obtain cached fonts' where g: "getFontSize el (this_fontName s) (lookup_size s (firstChildIsText span_el)) fonts = (cached, fonts')"
    by (cases "getFontSize el (this_fontName s) (lookup_size s (firstChildIsText span_el)) fonts")
  let ?st = "(font_to_letterSpacing env cached s (firstChildIsText span_el) (style span_el))
          \<lparr>style_color := Color_text env c1 (this_primaryAlpha s)\<rparr>"
  obtain a b st1 where ob: "outline_and_blur env s (Color_text env c2 (this_outlineAlpha s)) ?st = Inr (a, b, st1)"
    using outline_and_blur_returns[OF assms(4)] by blast
  obtain st2 where ds: "drop_shadow env s st1 = Inr st2"
    using drop_shadow_returns[OF assms(3)] by blast
  show ?thesis
    by (simp add: setStylesOnSpan_def Let_def g assms(1,2) ob ds)
qed


text \<open>
  Claim C4, as amended. The transform is the concatenation, in this order, of: the scale (for
  a span of text only, \<open>scaleY\<close> of the quotient of the font scales when they differ; else
  \<open>scaleX\<close> when the horizontal font scale is not 1, then \<open>scaleY\<close> when the vertical one
  is not 1); the Y rotation when it is not \<open>null\<close>; the X rotation when it is not \<open>null\<close>;
  the Z rotation, negated, when it is not 0; the shear matrix when either skew is not
  \<open>null\<close>, a \<open>null\<close> skew counting as 0 there. When the method returns, a transform that is
  not empty is the span's transform and the span's display is \<open>inline-block\<close>; with an empty
  transform both are left as they were.
\<close>

theorem transform_order:
  fixes env :: js_environment and s :: SpanStyles and span_el :: HTMLSpanElement
  assumes "fst (setStylesOnSpan env fontSizeElement span_el animationCollection s fonts) = Inr r"
  defines "isTextOnlySpan \<equiv> firstChildIsText span_el"
  defines "scale \<equiv>
     (if isTextOnlySpan then
        (if this_fontScaleY s \<noteq> this_fontScaleX s
         then ''scaleY(''
                @ toFixed3 env (js_divide (ToNumber (this_fontScaleY s)) (ToNumber (this_fontScaleX s)))
                @ '') ''
         else '''')
      else
        (if this_fontScaleX s \<noteq> Val 1
         then ''scaleX('' @ ToString env (this_fontScaleX s) @ '') '' else '''')
        @ (if this_fontScaleY s \<noteq> Val 1
           then ''scaleY('' @ ToString env (this_fontScaleY s) @ '') '' else ''''))"
  defines "rotateY \<equiv>
     (if this_rotationY s \<noteq> Null
      then ''rotateY('' @ ToString env (this_rotationY s) @ ''deg) '' else '''')"
  defines "rotateX \<equiv>
     (if this_rotationX s \<noteq> Null
      then ''rotateX('' @ ToString env (this_rotationX s) @ ''deg) '' else '''')"
  defines "rotateZ \<equiv>
     (if this_rotationZ s \<noteq> Val 0
      then ''rotateZ(''
             @ jsnum_ToString env (js_times (Num (- 1)) (ToNumber (this_rotationZ s)))
             @ ''deg) ''
      else '''')"
  defines "shear \<equiv>
     (if this_skewX s \<noteq> Null \<or> this_skewY s \<noteq> Null
      then ''matrix(1, ''
             @ ToString env (valueOrDefault (this_skewY s) (Val 0)) @ '', ''
             @ ToString env (valueOrDefault (this_skewX s) (Val 0))
             @ '', 1, 0, 0) ''
      else '''')"
  shows "transform env s isTextOnlySpan = scale @ rotateY @ rotateX @ rotateZ @ shear \<and>
         style_transform (span_style r) =
           (if transform env s isTextOnlySpan \<noteq> '''' then transform env s isTextOnlySpan
            else style_transform (style span_el)) \<and>
         style_display (span_style r) =
           (if transform env s isTextOnlySpan \<noteq> '''' then ''inline-block''
            else style_display (style span_el))"
proof -
  obtain s' fonts' where
    "setStylesOnSpan env fontSizeElement span_el animationCollection s fonts = (Inr r, s', fonts')"
    using assms(1) by (cases "setStylesOnSpan env fontSizeElement span_el animationCollection s fonts") auto
  note t = setStylesOnSpan_transform[OF this]
  have "transform env s isTextOnlySpan = scale @ rotateY @ rotateX @ rotateZ @ shear"
    unfolding scale_def rotateY_def rotateX_def rotateZ_def shear_def
    by (rule transform_unfold)
  with t show ?thesis
    unfolding isTextOnlySpan_def by blast
qed

lemma rotated_state_transform: "transform sample_env rotated_state True = ''scaleY(2.000) rotateY(10deg) rotateX(20deg) rotateZ(-30deg) matrix(1, 0, 1, 1, 0, 0) ''"
  by (simp add: rotated_state_def sample_state_def transform_unfold statements_simps setter_defs SpanStyles_new_unfold valueOrDefault_def
   sample_style_def sample_env_def integer_text_examples toFixed3_2)

lemma rotated_state_fields:
  "this_primaryColor rotated_state = Val white" "this_outlineColor rotated_state = Val black"
  "this_shadowColor rotated_state = Val black" "enableSvg (this_settings rotated_state)"
  by (simp_all add: rotated_state_def sample_state_def statements_simps setter_defs SpanStyles_new_unfold sample_style_def)

theorem transform_order_witness:
  "fst (setStylesOnSpan sample_env sample_element
          (sample_span True)
          sample_animations rotated_state no_font_sizes)
     = Inr (projr (fst (setStylesOnSpan sample_env sample_element
          (sample_span True)
          sample_animations rotated_state no_font_sizes))) \<and>
   transform sample_env rotated_state True
     = ''scaleY(2.000) rotateY(10deg) rotateX(20deg) rotateZ(-30deg) matrix(1, 0, 1, 1, 0, 0) '' \<and>
   style_transform (span_style (projr (fst (setStylesOnSpan sample_env sample_element
          (sample_span True)
          sample_animations rotated_state no_font_sizes))))
     = ''scaleY(2.000) rotateY(10deg) rotateX(20deg) rotateZ(-30deg) matrix(1, 0, 1, 1, 0, 0) '' \<and>
   style_display (span_style (projr (fst (setStylesOnSpan sample_env sample_element
          (sample_span True)
          sample_animations rotated_state no_font_sizes))))
     = ''inline-block''"
proof -
  let ?call = "setStylesOnSpan sample_env sample_element
          (sample_span True)
          sample_animations rotated_state no_font_sizes"
  have ret: "fst ?call = Inr (projr (fst ?call))"
    using setStylesOnSpan_returns[OF rotated_state_fields(1,2,3), of _ sample_env sample_element
        "sample_span True" sample_animations no_font_sizes]
      rotated_state_fields(4)
    by auto
  from transform_order[OF ret] rotated_state_transform ret show ?thesis
    by (simp add: sample_span_def)
qed

text \<open>
  The claim as stated gives a span that is not text-only its \<open>scaleX\<close> and \<open>scaleY\<close>
  components. On a new style state, whose font scales are 1, the transform of such a span is
  empty; with a horizontal font scale of 2 it is \<open>scaleX\<close> alone.
\<close>

theorem transform_scale_components_counterexample:
  "transform sample_env (sample_state True) False = '''' \<and>
   transform sample_env (set_fontScaleX (Val 2) (sample_state True)) False = ''scaleX(2) ''"
  by (simp add: transform_unfold sample_state_def SpanStyles_new_unfold sample_style_def
      setter_defs valueOrDefault_def sample_env_def integer_text_examples)

lemma setStylesOnSpan_wrapper_display:
  assumes "fst (setStylesOnSpan env el span_el ac s fonts) = Inr r"
  shows "style_display (filterWrapperSpan_style r) =
           (if this_rotationX s \<noteq> Val 0 \<or> this_rotationY s \<noteq> Val 0
            then ''inline-block'' else '''')"
proof -
  obtain s' fonts' where
    "setStylesOnSpan env el span_el ac s fonts = (Inr r, s', fonts')"
    using assms by (cases "setStylesOnSpan env el span_el ac s fonts") auto
  then obtain outlineFilter blurFilter where
    "filterWrapperSpan_style r =
       wrapper_display s
         (wrapper_filter (''svg-filter-'' @ this_id s @ ''-'' @ nat_ToString (this_nextFilterId s))
            outlineFilter blurFilter)"
    by (rule setStylesOnSpan_Inr)
  then show ?thesis
    by (simp add: wrapper_display_def wrapper_filter_def new_style_def)
qed

lemma sample_state_fields:
  "this_primaryColor (sample_state svg) = Val white"
  "this_outlineColor (sample_state svg) = Val black"
  "this_shadowColor (sample_state svg) = Val black"
  "this_gaussianBlur (sample_state svg) = Val 0"
  "this_rotationX (sample_state svg) = Null"
  "this_rotationY (sample_state svg) = Null"
  by (simp_all add: sample_state_def SpanStyles_new_unfold sample_style_def)

text \<open>
  Claim C8. The code tests the X and Y rotations against 0 where their absent value is
  \<open>null\<close>. On a new style state, with neither rotation present, the call returns and the
  wrapper it returns has the display \<open>inline-block\<close>; with both rotations set to 0, so
  that both are present, the call returns and the wrapper has no display.
\<close>

theorem wrapper_display_tests_zero:
  "this_rotationX (sample_state True) = Null \<and>
   this_rotationY (sample_state True) = Null \<and>
   map_sum (\<lambda>e. e) (\<lambda>r. style_display (filterWrapperSpan_style r))
     (fst (setStylesOnSpan sample_env sample_element (sample_span True) sample_animations
         (sample_state True) no_font_sizes))
     = Inr ''inline-block'' \<and>
   this_rotationX (set_rotationY (Val 0) (set_rotationX (Val 0) (sample_state True))) = Val 0 \<and>
   this_rotationY (set_rotationY (Val 0) (set_rotationX (Val 0) (sample_state True))) = Val 0 \<and>
   map_sum (\<lambda>e. e) (\<lambda>r. style_display (filterWrapperSpan_style r))
     (fst (setStylesOnSpan sample_env sample_element (sample_span True) sample_animations
         (set_rotationY (Val 0) (set_rotationX (Val 0) (sample_state True))) no_font_sizes))
     = Inr ''''"
proof -
  let ?s0 = "sample_state True"
  let ?s1 = "set_rotationY (Val 0) (set_rotationX (Val 0) (sample_state True))"
  have s1: "this_primaryColor ?s1 = Val white" "this_outlineColor ?s1 = Val black"
    "this_shadowColor ?s1 = Val black" "this_gaussianBlur ?s1 = Val 0"
    "this_rotationX ?s1 = Val 0" "this_rotationY ?s1 = Val 0"
    by (simp_all add: setter_defs sample_state_fields)
  have r0: "fst (setStylesOnSpan sample_env sample_element (sample_span True) sample_animations
                   ?s0 no_font_sizes)
            = Inr (projr (fst (setStylesOnSpan sample_env sample_element (sample_span True)
                   sample_animations ?s0 no_font_sizes)))"
    using setStylesOnSpan_returns[OF sample_state_fields(1,2,3), of True 0 sample_env
        sample_element "sample_span True" sample_animations no_font_sizes]
    by (auto simp: sample_state_fields)
  have r1: "fst (setStylesOnSpan sample_env sample_element (sample_span True) sample_animations
                   ?s1 no_font_sizes)
            = Inr (projr (fst (setStylesOnSpan sample_env sample_element (sample_span True)
                   sample_animations ?s1 no_font_sizes)))"
    using setStylesOnSpan_returns[OF s1(1,2,3), of 0 sample_env
        sample_element "sample_span True" sample_animations no_font_sizes]
    by (auto simp: s1)
  have d0: "map_sum (\<lambda>e. e) (\<lambda>r. style_display (filterWrapperSpan_style r))
     (fst (setStylesOnSpan sample_env sample_element (sample_span True) sample_animations
         ?s0 no_font_sizes)) = Inr ''inline-block''"
    by (subst r0) (use setStylesOnSpan_wrapper_display[OF r0] in \<open>simp add: sample_state_fields\<close>)
  have d1: "map_sum (\<lambda>e. e) (\<lambda>r. style_display (filterWrapperSpan_style r))
     (fst (setStylesOnSpan sample_env sample_element (sample_span True) sample_animations
         ?s1 no_font_sizes)) = Inr ''''"
    by (subst r1) (use setStylesOnSpan_wrapper_display[OF r1] in \<open>simp add: s1\<close>)
  show ?thesis
    using d0 d1 by (simp add: sample_state_fields s1)
qed

text \<open>With both rotations set to 0, the span does get its two rotations.\<close>

lemma zero_rotations_transform:
  "transform sample_env
      (set_rotationY (Val 0) (set_rotationX (Val 0) (sample_state True))) True
     = ''rotateY(0deg) rotateX(0deg) ''"
  by (simp add: transform_unfold sample_state_def SpanStyles_new_unfold sample_style_def
      setter_defs valueOrDefault_def sample_env_def integer_text_examples)


section \<open>Properties of the font-size cache\<close>

lemma cache_ok_empty: "cache_ok no_font_sizes"
  by (simp add: cache_ok_def no_font_sizes_def)

lemma getFontSize_hit:
  assumes "fontSizeCache fs fam = Some m" "m lh = Some v"
  shows "getFontSize el fam lh fs = (v, fs)"
  using assms by (simp add: getFontSize_def)

lemma getFontSize_miss:
  assumes "\<not> (\<exists>m v. fontSizeCache fs fam = Some m \<and> m lh = Some v)"
  shows "getFontSize el fam lh fs =
     (js_divide (js_times lh lh) (Num (el fam lh)),
      fs\<lparr>fontSizeCache := (fontSizeCache fs)(fam \<mapsto>
            (case fontSizeCache fs fam of Some m \<Rightarrow> m | None \<Rightarrow> Map.empty)
              (lh \<mapsto> js_divide (js_times lh lh) (Num (el fam lh)))),
         measured := measured fs @ [(fam, lh)]\<rparr>)"
  using assms by (auto simp: getFontSize_def Let_def split: option.splits)

lemma getFontSize_ok:
  assumes "cache_ok fs"
  shows "cache_ok (snd (getFontSize el fam lh fs))"
proof (cases "\<exists>m v. fontSizeCache fs fam = Some m \<and> m lh = Some v")
  case True
  then show ?thesis using assms by (auto simp: getFontSize_hit)
next
  case False
  have new: "(fam, lh) \<notin> set (measured fs)"
    using assms False unfolding cache_ok_def by blast
  show ?thesis
    unfolding getFontSize_miss[OF False]
    using assms new
    unfolding cache_ok_def
    by (auto split: option.splits if_splits)
qed

lemma render_all_ok:
  assumes "cache_ok fonts"
  shows "cache_ok (fold (\<lambda>(env, el, span_el, ac, s) fonts.
            snd (snd (setStylesOnSpan env el span_el ac s fonts))) calls fonts)"
  using assms
proof (induction calls arbitrary: fonts)
  case Nil
  then show ?case by simp
next
  case (Cons c calls)
  obtain env el span_el ac s where c: "c = (env, el, span_el, ac, s)"
    by (cases c)
  have "cache_ok (snd (snd (setStylesOnSpan env el span_el ac s fonts)))"
    unfolding setStylesOnSpan_fonts using Cons.prems by (rule getFontSize_ok)
  from Cons.IH[OF this] show ?case
    by (simp add: c)
qed

lemma getFontSize_again:
  assumes "cache_ok fs" "getFontSize el fam lh fs = (v, fs1)"
  shows "getFontSize el' fam lh fs1 = (v, fs1)"
proof (cases "\<exists>m v. fontSizeCache fs fam = Some m \<and> m lh = Some v")
  case True
  then obtain m w where mw: "fontSizeCache fs fam = Some m" "m lh = Some w" by blast
  with assms(2) have "v = w" "fs1 = fs" by (simp_all add: getFontSize_hit)
  with mw show ?thesis by (simp add: getFontSize_hit)
next
  case False
  from assms(2) have v: "v = js_divide (js_times lh lh) (Num (el fam lh))"
    and fs1: "fs1 = fs\<lparr>fontSizeCache := (fontSizeCache fs)(fam \<mapsto>
            (case fontSizeCache fs fam of Some m \<Rightarrow> m | None \<Rightarrow> Map.empty)
              (lh \<mapsto> js_divide (js_times lh lh) (Num (el fam lh)))),
         measured := measured fs @ [(fam, lh)]\<rparr>"
    unfolding getFontSize_miss[OF False] by auto
  show ?thesis
    by (rule getFontSize_hit[where m = "(case fontSizeCache fs fam of Some m \<Rightarrow> m | None \<Rightarrow> Map.empty)
              (lh \<mapsto> js_divide (js_times lh lh) (Num (el fam lh)))"]) (simp_all add: fs1 v)
qed

lemma getFontSize_measured:
  assumes "cache_ok fs" "getFontSize el fam lh fs = (v, fs1)"
  shows "measured fs1 = (if (fam, lh) \<in> set (measured fs) then measured fs
                          else measured fs @ [(fam, lh)])"
    and "(fam, lh) \<notin> set (measured fs) \<Longrightarrow> v = js_divide (js_times lh lh) (Num (el fam lh))"
proof -
  show "measured fs1 = (if (fam, lh) \<in> set (measured fs) then measured fs
                          else measured fs @ [(fam, lh)])"
  proof (cases "\<exists>m v. fontSizeCache fs fam = Some m \<and> m lh = Some v")
    case True
    then have "(fam, lh) \<in> set (measured fs)" using assms(1) unfolding cache_ok_def by blast
    moreover from True assms(2) have "fs1 = fs" by (auto simp: getFontSize_hit)
    ultimately show ?thesis by simp
  next
    case False
    then have "(fam, lh) \<notin> set (measured fs)" using assms(1) unfolding cache_ok_def by blast
    moreover from assms(2) have "measured fs1 = measured fs @ [(fam, lh)]"
      unfolding getFontSize_miss[OF False] by auto
    ultimately show ?thesis by simp
  qed
  show "v = js_divide (js_times lh lh) (Num (el fam lh))" if "(fam, lh) \<notin> set (measured fs)"
  proof -
    from that have "\<not> (\<exists>m v. fontSizeCache fs fam = Some m \<and> m lh = Some v)"
      using assms(1) unfolding cache_ok_def by blast
    from assms(2)[unfolded getFontSize_miss[OF this]] show ?thesis by simp
  qed
qed

text \<open>
  Claim C7. Starting from the empty cache, after any sequence of \<open>setStylesOnSpan\<close> calls
  (on any style states, spans and measuring elements, returning or throwing) no pair of font
  family and size has been measured twice. A further call changes the cache as
  \<open>_getFontSize\<close> does on the font name and the size it looks up: it measures that pair
  only if it has not been measured yet, the value then being the square of the size over
  the measured height; and one more lookup of the same pair, with any measuring element,
  returns the same value and leaves the cache and the list of readings as they are.
\<close>

theorem measured_once:
  fixes calls :: "(js_environment \<times> fontSizeElement \<times> HTMLSpanElement \<times> AnimationCollection
                    \<times> SpanStyles) list"
    and s :: SpanStyles and span_el :: HTMLSpanElement and env :: js_environment
    and el el' :: fontSizeElement and ac :: AnimationCollection
  defines "fonts \<equiv> fold (\<lambda>(env, el, span_el, ac, s) fonts.
                            snd (snd (setStylesOnSpan env el span_el ac s fonts)))
                         calls no_font_sizes"
  defines "fontFamily \<equiv> this_fontName s"
  defines "pointSize \<equiv> lookup_size s (firstChildIsText span_el)"
  defines "fonts1 \<equiv> snd (snd (setStylesOnSpan env el span_el ac s fonts))"
  shows "distinct (measured fonts) \<and>
         fonts1 = snd (getFontSize el fontFamily pointSize fonts) \<and>
         measured fonts1 = (if (fontFamily, pointSize) \<in> set (measured fonts) then measured fonts
                            else measured fonts @ [(fontFamily, pointSize)]) \<and>
         ((fontFamily, pointSize) \<notin> set (measured fonts) \<longrightarrow>
            fst (getFontSize el fontFamily pointSize fonts)
              = js_divide (js_times pointSize pointSize) (Num (el fontFamily pointSize))) \<and>
         getFontSize el' fontFamily pointSize fonts1
           = (fst (getFontSize el fontFamily pointSize fonts), fonts1)"
proof -
  have ok: "cache_ok fonts"
    unfolding fonts_def by (rule render_all_ok) (rule cache_ok_empty)
  have f1: "fonts1 = snd (getFontSize el fontFamily pointSize fonts)"
    unfolding fonts1_def fontFamily_def pointSize_def by (rule setStylesOnSpan_fonts)
  then have g: "getFontSize el fontFamily pointSize fonts
                = (fst (getFontSize el fontFamily pointSize fonts), fonts1)"
    by simp
  from ok have "distinct (measured fonts)"
    by (simp add: cache_ok_def)
  moreover note f1 getFontSize_measured(1)[OF ok g]
  moreover have "(fontFamily, pointSize) \<notin> set (measured fonts) \<longrightarrow>
            fst (getFontSize el fontFamily pointSize fonts)
              = js_divide (js_times pointSize pointSize) (Num (el fontFamily pointSize))"
    using getFontSize_measured(2)[OF ok g] by blast
  moreover note getFontSize_again[OF ok g]
  ultimately show ?thesis by blast
qed

theorem measured_once_witness:
  "(Val ''Arial'', Num 20) \<notin> set (measured no_font_sizes) \<and>
   measured (snd (snd (setStylesOnSpan sample_env sample_element (sample_span True)
                         sample_animations (sample_state True) no_font_sizes)))
     = [(Val ''Arial'', Num 20)] \<and>
   fst (getFontSize sample_element (Val ''Arial'') (Num 20) no_font_sizes)
     = Finite (Num (400 / 23)) \<and>
   measured (snd (snd (setStylesOnSpan sample_env (\<lambda>fontFamily lineHeight. 25) (sample_span True)
                         sample_animations (sample_state False)
                         (snd (snd (setStylesOnSpan sample_env sample_element (sample_span True)
                            sample_animations (sample_state True) no_font_sizes))))))
     = [(Val ''Arial'', Num 20)]"
proof -
  have key: "this_fontName (sample_state svg) = Val ''Arial''"
    "lookup_size (sample_state svg) (firstChildIsText (sample_span True)) = Num 20" for svg
    by (simp_all add: sample_state_def SpanStyles_new_unfold sample_style_def lookup_size_def
        sample_span_def)
  have g1: "getFontSize sample_element (Val ''Arial'') (Num 20) no_font_sizes
              = (Finite (Num (400 / 23)),
                 \<lparr>fontSizeCache = [Val ''Arial'' \<mapsto> [Num 20 \<mapsto> Finite (Num (400 / 23))]],
                  measured = [(Val ''Arial'', Num 20)]\<rparr>)"
    by (simp add: getFontSize_def no_font_sizes_def sample_element_def Let_def)
  have g2: "getFontSize (\<lambda>fontFamily lineHeight. 25) (Val ''Arial'') (Num 20)
                 \<lparr>fontSizeCache = [Val ''Arial'' \<mapsto> [Num 20 \<mapsto> Finite (Num (400 / 23))]],
                  measured = [(Val ''Arial'', Num 20)]\<rparr>
              = (Finite (Num (400 / 23)),
                 \<lparr>fontSizeCache = [Val ''Arial'' \<mapsto> [Num 20 \<mapsto> Finite (Num (400 / 23))]],
                  measured = [(Val ''Arial'', Num 20)]\<rparr>)"
    by (simp add: getFontSize_def Let_def)
  let ?F1 = "\<lparr>fontSizeCache = [Val ''Arial'' \<mapsto> [Num 20 \<mapsto> Finite (Num (400 / 23))]],
                  measured = [(Val ''Arial'', Num 20)]\<rparr>"
  have s1: "snd (snd (setStylesOnSpan sample_env sample_element (sample_span True)
                         sample_animations (sample_state True) no_font_sizes)) = ?F1"
    using measured_once[where calls = "[]" and env = sample_env and el = sample_element
        and span_el = "sample_span True" and ac = sample_animations and s = "sample_state True"
        and el' = sample_element]
    by (simp add: key g1)
  have s2: "snd (snd (setStylesOnSpan sample_env (\<lambda>fontFamily lineHeight. 25) (sample_span True)
                         sample_animations (sample_state False) ?F1)) = ?F1"
    using measured_once[where calls = "[(sample_env, sample_element, sample_span True,
           sample_animations, sample_state True)]" and env = sample_env
        and el = "\<lambda>fontFamily lineHeight. 25"
        and span_el = "sample_span True" and ac = sample_animations and s = "sample_state False"
        and el' = sample_element]
    by (simp add: key s1 g2)
  show ?thesis
    by (simp add: s1 s2 g1) (simp add: no_font_sizes_def)
qed


section \<open>Properties of the outline\<close>

lemma count_le_Num: "count_le (Num b) n = [n..<nat (\<lfloor>b\<rfloor> + 1)]"
proof (induction "Num b" n rule: count_le.induct)
  case (1 n)
  show ?case
  proof (cases "real n \<le> b")
    case True
    then have "int n \<le> \<lfloor>b\<rfloor>" by (simp add: le_floor_iff)
    then have lt: "n < nat (\<lfloor>b\<rfloor> + 1)" by linarith
    have "count_le (Num b) n = n # count_le (Num b) (n + 1)"
      using True by (subst count_le.simps) simp
    also have "\<dots> = n # [n + 1..<nat (\<lfloor>b\<rfloor> + 1)]"
      using "1.hyps" True by simp
    also have "\<dots> = [n..<nat (\<lfloor>b\<rfloor> + 1)]"
      using lt by (simp add: upt_conv_Cons)
    finally show ?thesis .
  next
    case False
    then have "\<lfloor>b\<rfloor> < int n" by (simp add: floor_less_iff)
    then have "nat (\<lfloor>b\<rfloor> + 1) \<le> n" by linarith
    moreover have "count_le (Num b) n = []"
      using False by (subst count_le.simps) simp
    ultimately show ?thesis by simp
  qed
qed

lemma count_le_NaN: "count_le NaN n = []"
  by (subst count_le.simps) simp

lemma fallback_outlines_zero_width:
  assumes "0 < H"
  shows "fallback_outlines (Num 0) (Num H)
         = (0, 0) # concat (map (\<lambda>y. [(0, int y), (0, - int y)]) [1..<nat \<lfloor>H\<rfloor> + 1])"
proof -
  have n: "nat (\<lfloor>H\<rfloor> + 1) = nat \<lfloor>H\<rfloor> + 1"
    using assms by (simp add: nat_add_distrib)
  have "fallback_outlines (Num 0) (Num H) = concat (map (four_ways 0) [0..<nat \<lfloor>H\<rfloor> + 1])"
    by (simp add: fallback_outlines_def count_le_Num maxY_def n)
  also have "[0..<nat \<lfloor>H\<rfloor> + 1] = 0 # [1..<nat \<lfloor>H\<rfloor> + 1]"
    by (subst upt_rec) simp
  also have "concat (map (four_ways 0) (0 # [1..<nat \<lfloor>H\<rfloor> + 1]))
             = (0, 0) # concat (map (four_ways 0) [1..<nat \<lfloor>H\<rfloor> + 1])"
    by (simp add: four_ways_def)
  also have "map (four_ways 0) [1..<nat \<lfloor>H\<rfloor> + 1]
             = map (\<lambda>y. [(0, int y), (0, - int y)]) [1..<nat \<lfloor>H\<rfloor> + 1]"
  proof (rule map_cong[OF refl])
    fix y assume "y \<in> set [1..<nat \<lfloor>H\<rfloor> + 1]"
    then have "1 \<le> y" by (simp only: set_upt atLeastLessThan_iff)
    then have "y \<noteq> 0" by simp
    then show "four_ways 0 y = [(0, int y), (0, - int y)]"
      by (simp add: four_ways_def)
  qed
  finally show ?thesis .
qed

lemma svg_outlines_zero_width:
  assumes "0 < H"
  shows "svg_outlines precise gb (Num 0) (Num H) = [(Finite (Num 0), Finite (Num H))]"
  using assms by (simp add: svg_outlines_def)

text \<open>
  Claim C2, as amended. Let the scaled outline width be 0 and the scaled outline height be
  \<open>H\<close>. When \<open>H = 0\<close>, in both modes the outline stage produces no outline filter, and
  leaves the style of the span, with its text shadow, as it was. When \<open>H > 0\<close>: with SVG
  filters the walk calls \<open>addOutline\<close> exactly once, at \<open>(0, H)\<close>, and the outline filter is
  the one dilation with that radius followed by the merge, flood and composite primitives;
  without SVG filters the shadow entries are at \<open>(0, 0)\<close> and then at \<open>(0, y)\<close> and
  \<open>(0, -y)\<close> for each integer \<open>y\<close> from 1 up to \<open>H\<close>, in this order, and they are the
  span's text shadow.
\<close>

theorem outline_of_zero_width:
  fixes s :: SpanStyles and env :: js_environment and H :: real and outlineColor_text :: string
  assumes "scaled_outlineWidth s = Num 0" and "scaled_outlineHeight s = Num H"
  defines "dilation \<equiv>
     TAB @ ''<feMorphology in='' @ DQ @ ''SourceAlpha'' @ DQ @ '' operator='' @ DQ
       @ ''dilate'' @ DQ @ '' radius='' @ DQ @ toFixed3 env (Finite (Num 0)) @ '' ''
       @ toFixed3 env (Finite (Num H)) @ DQ
       @ '' result='' @ DQ @ ''outline'' @ nat_ToString 0 @ DQ @ '' />'' @ NL"
  defines "merge \<equiv>
     TAB @ ''<feMerge result='' @ DQ @ ''outline'' @ DQ @ ''>'' @ NL
       @ TAB @ TAB @ ''<feMergeNode in='' @ DQ @ ''outline'' @ nat_ToString 0 @ DQ @ '' />'' @ NL
       @ NL
       @ ''</feMerge>'' @ NL
       @ ''<feFlood flood-color='' @ DQ @ outlineColor_text @ DQ @ '' />'' @ NL
       @ ''<feComposite operator='' @ DQ @ ''in'' @ DQ @ '' in2='' @ DQ @ ''outline''
       @ DQ @ '' />'' @ NL"
  defines "shadows \<equiv>
     (0, 0) # concat (map (\<lambda>y. [(0, int y), (0, - int y)]) [1..<nat \<lfloor>H\<rfloor> + 1])"
  shows
    "(H = 0 \<longrightarrow>
        outline_and_blur env s outlineColor_text st
          = Inr ('''', if enableSvg (this_settings s) then svg_blurFilter env s else '''', st)) \<and>
     (0 < H \<longrightarrow>
        svg_outlines (preciseOutlines (this_settings s)) (this_gaussianBlur s)
            (scaled_outlineWidth s) (scaled_outlineHeight s)
          = [(Finite (Num 0), Finite (Num H))] \<and>
        (enableSvg (this_settings s) \<longrightarrow>
           outline_and_blur env s outlineColor_text st
             = Inr (dilation @ merge, svg_blurFilter env s, st)) \<and>
        fallback_outlines (scaled_outlineWidth s) (scaled_outlineHeight s) = shadows \<and>
        (\<not> enableSvg (this_settings s) \<and> this_gaussianBlur s = Val g \<longrightarrow>
           outline_and_blur env s outlineColor_text st
             = Inr ('''', '''',
                    st\<lparr>style_textShadow :=
                         drop 2 (fold (fallback_addOutline env outlineColor_text g) shadows '''')\<rparr>)))"
proof (intro conjI impI)
  assume "H = 0"
  then show "outline_and_blur env s outlineColor_text st
          = Inr ('''', if enableSvg (this_settings s) then svg_blurFilter env s else '''', st)"
    using assms(1,2) by (simp add: outline_and_blur_def svg_outlineFilter_def)
next
  assume H: "0 < H"
  show one: "svg_outlines (preciseOutlines (this_settings s)) (this_gaussianBlur s)
            (scaled_outlineWidth s) (scaled_outlineHeight s)
          = [(Finite (Num 0), Finite (Num H))]"
    unfolding assms(1,2) using H by (rule svg_outlines_zero_width)
  show fb: "fallback_outlines (scaled_outlineWidth s) (scaled_outlineHeight s) = shadows"
    unfolding assms(1,2) shadows_def using H by (rule fallback_outlines_zero_width)
  show "outline_and_blur env s outlineColor_text st
             = Inr (dilation @ merge, svg_blurFilter env s, st)"
    if "enableSvg (this_settings s)"
  proof -
    have "svg_outlineFilter env s outlineColor_text = dilation @ merge"
      unfolding svg_outlineFilter_def one
      using H assms(1,2)
      by (simp add: svg_addOutline_def dilation_def merge_def)
    with that show ?thesis
      by (simp add: outline_and_blur_def)
  qed
  show "outline_and_blur env s outlineColor_text st
             = Inr ('''', '''',
                    st\<lparr>style_textShadow :=
                         drop 2 (fold (fallback_addOutline env outlineColor_text g) shadows '''')\<rparr>)"
    if "\<not> enableSvg (this_settings s) \<and> this_gaussianBlur s = Val g"
    using that H fb assms(1,2)
    by (simp add: outline_and_blur_def Let_def)
qed

lemma outlined_state_fields:
  "scaled_outlineWidth (outlined_state svg w h) = Num w"
  "scaled_outlineHeight (outlined_state svg w h) = Num h"
  "this_primaryColor (outlined_state svg w h) = Val white"
  "this_outlineColor (outlined_state svg w h) = Val black"
  "this_shadowColor (outlined_state svg w h) = Val black"
  "this_gaussianBlur (outlined_state svg w h) = Val 0"
  "this_shadowDepthX (outlined_state svg w h) = Val 0"
  "this_shadowDepthY (outlined_state svg w h) = Val 0"
  "this_outlineAlpha (outlined_state svg w h) = Null"
  "enableSvg (this_settings (outlined_state svg w h)) = svg"
  "preciseOutlines (this_settings (outlined_state svg w h)) = False"
  by (simp_all add: outlined_state_def setter_defs valueOrDefault_def sample_state_def
      SpanStyles_new_unfold sample_style_def scaled_outlineWidth_def scaled_outlineHeight_def)

lemma fallback_textShadow:
  assumes "fst (setStylesOnSpan env el span_el ac s fonts) = Inr r"
    and "\<not> enableSvg (this_settings s)" and "this_gaussianBlur s = Val g"
    and "js_gt (scaled_outlineWidth s) (Num 0) \<or> js_gt (scaled_outlineHeight s) (Num 0)"
    and "this_shadowDepthX s = Val 0" and "this_shadowDepthY s = Val 0"
    and "this_outlineColor s = Val c"
  shows "style_textShadow (span_style r)
         = drop 2 (fold (fallback_addOutline env (Color_text env c (this_outlineAlpha s)) g)
                        (fallback_outlines (scaled_outlineWidth s) (scaled_outlineHeight s)) '''')"
proof -
  obtain s' fonts' where
    "setStylesOnSpan env el span_el ac s fonts = (Inr r, s', fonts')"
    using assms(1) by (cases "setStylesOnSpan env el span_el ac s fonts") auto
  then obtain c1 c2 outlineFilter blurFilter st1 st2 where
    c2: "this_outlineColor s = Val c2"
    and ob: "outline_and_blur env s (Color_text env c2 (this_outlineAlpha s))
       ((font_to_letterSpacing env
           (fst (getFontSize el (this_fontName s) (lookup_size s (firstChildIsText span_el)) fonts))
           s (firstChildIsText span_el) (style span_el))
          \<lparr>style_color := Color_text env c1 (this_primaryAlpha s)\<rparr>)
     = Inr (outlineFilter, blurFilter, st1)"
    and ds: "drop_shadow env s st1 = Inr st2"
    and r: "span_style r = st2\<lparr>style_webkitAnimation := ac_animationStyle ac,
                          style_animation := ac_animationStyle ac\<rparr>"
    by (rule setStylesOnSpan_Inr)
  from c2 assms(7) have [simp]: "c2 = c" by simp
  from ds assms(5,6) have "st2 = st1"
    by (simp add: drop_shadow_def)
  moreover from ob assms(2,3,4) have "style_textShadow st1
     = drop 2 (fold (fallback_addOutline env (Color_text env c (this_outlineAlpha s)) g)
                        (fallback_outlines (scaled_outlineWidth s) (scaled_outlineHeight s)) '''')"
    by (auto simp: outline_and_blur_def Let_def)
  ultimately show ?thesis
    by (simp add: r)
qed

lemma integer_text_minus: "integer_text (- 1) = ''-1''" "integer_text (- 2) = ''-2''"
proof -
  have "nat_ToString 1 = ''1''" "nat_ToString 2 = ''2''" "nat_ToString (Suc 0) = ''1''" by code_simp+
  then show "integer_text (- 1) = ''-1''" "integer_text (- 2) = ''-2''"
    by (simp_all add: integer_text_def)
qed

theorem outline_of_zero_width_witness:
  "scaled_outlineWidth (outlined_state True 0 2) = Num 0 \<and>
   scaled_outlineHeight (outlined_state True 0 2) = Num 2 \<and>
   svg_outlines False (Val 0) (Num 0) (Num 2) = [(Finite (Num 0), Finite (Num 2))] \<and>
   fallback_outlines (Num 0) (Num 2) = [(0, 0), (0, 1), (0, - 1), (0, 2), (0, - 2)] \<and>
   scaled_outlineWidth (outlined_state False 0 0) = Num 0 \<and>
   scaled_outlineHeight (outlined_state False 0 0) = Num 0 \<and>
   outline_and_blur sample_env (outlined_state False 0 0) ''black'' new_style
     = Inr ('''', '''', new_style)"
proof -
  note f = outlined_state_fields
  note t2 = outline_of_zero_width[where s = "outlined_state True 0 2" and H = 2
      and env = sample_env and outlineColor_text = "''black''" and st = new_style and g = 0,
      OF f(1) f(2)]
  note t0 = outline_of_zero_width[where s = "outlined_state False 0 0" and H = 0
      and env = sample_env and outlineColor_text = "''black''" and st = new_style and g = 0,
      OF f(1) f(2)]
  have upt: "[1..<nat \<lfloor>2::real\<rfloor> + 1] = [1, 2]"
    by (simp add: upt_rec[of 1] upt_rec[of 2] upt_rec[of 3] upt_rec[of "Suc 0"]
        upt_rec[of "Suc (Suc 0)"])
  from t2 have a: "svg_outlines False (Val 0) (Num 0) (Num 2) = [(Finite (Num 0), Finite (Num 2))]"
    by (simp add: f)
  from t2 have "fallback_outlines (Num 0) (Num 2)
       = (0, 0) # concat (map (\<lambda>y. [(0, int y), (0, - int y)]) [1..<nat \<lfloor>2::real\<rfloor> + 1])"
    by (simp only: f)
  then have b: "fallback_outlines (Num 0) (Num 2) = [(0, 0), (0, 1), (0, - 1), (0, 2), (0, - 2)]"
    by (simp only: upt) simp
  from t0 have c: "outline_and_blur sample_env (outlined_state False 0 0) ''black'' new_style
     = Inr ('''', '''', new_style)"
    by (simp add: f)
  show ?thesis
    using a b c by (simp add: f)
qed

text \<open>
  The claim as stated has exactly one shadow entry, at \<open>(0, H)\<close>, in the mode without SVG
  filters too. With a scaled outline width of 0 and height of 1 there are three.
\<close>

theorem fallback_outline_counterexample:
  "scaled_outlineWidth (outlined_state False 0 1) = Num 0 \<and>
   scaled_outlineHeight (outlined_state False 0 1) = Num 1 \<and>
   fallback_outlines (scaled_outlineWidth (outlined_state False 0 1))
                     (scaled_outlineHeight (outlined_state False 0 1))
     = [(0, 0), (0, 1), (0, - 1)] \<and>
   style_textShadow (span_style (projr (fst
      (setStylesOnSpan sample_env sample_element (sample_span True) sample_animations
         (outlined_state False 0 1) no_font_sizes))))
     = ''rgba(0, 0, 0, 1) 0px 0px 0.000px, rgba(0, 0, 0, 1) 0px 1px 0.000px, rgba(0, 0, 0, 1) 0px -1px 0.000px''"
proof -
  let ?s = "outlined_state False 0 1"
  have out: "fallback_outlines (Num 0) (Num 1) = [(0, 0), (0, 1), (0, - 1)]"
    by (simp add: fallback_outlines_zero_width)
  have ret: "fst (setStylesOnSpan sample_env sample_element (sample_span True) sample_animations
                   ?s no_font_sizes)
            = Inr (projr (fst (setStylesOnSpan sample_env sample_element (sample_span True)
                   sample_animations ?s no_font_sizes)))"
    using setStylesOnSpan_returns[OF outlined_state_fields(3,4,5), of False 0 1 0 sample_env
        sample_element "sample_span True" sample_animations no_font_sizes]
    by (auto simp: outlined_state_fields)
  have "style_textShadow (span_style (projr (fst
      (setStylesOnSpan sample_env sample_element (sample_span True) sample_animations
         ?s no_font_sizes))))
     = drop 2 (fold (fallback_addOutline sample_env (Color_text sample_env black Null) 0)
                        (fallback_outlines (Num 0) (Num 1)) '''')"
    using fallback_textShadow[OF ret, of 0 black]
    by (simp add: outlined_state_fields)
  also have "\<dots> = ''rgba(0, 0, 0, 1) 0px 0px 0.000px, rgba(0, 0, 0, 1) 0px 1px 0.000px, rgba(0, 0, 0, 1) 0px -1px 0.000px''"
    by (simp add: out fallback_addOutline_def sample_env_def black_def integer_text_examples
        integer_text_minus toFixed3_examples)
  finally show ?thesis
    by (simp add: outlined_state_fields out)
qed


section \<open>Properties of the outline walk\<close>











end
